theory Spec2Isabelle
  imports Complex_Main "HOL-Library.AList" "HOL-Library.Sublist"
begin

section \<open>JavaScript values and JSON documents\<close>

text \<open>
  BucketORM (\<^verbatim>\<open>src/core/bucketorm.ts\<close>, \<^verbatim>\<open>src/core/model.ts\<close>,
  \<^verbatim>\<open>src/core/schema-model.ts\<close>, \<^verbatim>\<open>src/types.ts\<close>) stores records as JSON
  objects in a bucket. A record is typed \<^verbatim>\<open>ModelRecord\<close>, an object with an index
  signature \<^verbatim>\<open>[key: string]: any\<close>, so the model starts from the values a record can
  hold at run time.

  A number is a double: the finite ones are taken as rationals (no arithmetic is done on
  them; \<open>-0\<close> is identified with \<open>0\<close>, which \<^verbatim>\<open>===\<close> does too), next to
  \<^verbatim>\<open>NaN\<close> and the two infinities. A \<^verbatim>\<open>Date\<close> is its time value in milliseconds
  since the epoch, \<open>None\<close> for an invalid date. An object is the list of its own
  properties, in the order in which they are enumerated; a property is read by its first
  entry, and the names in the list of a well-formed object are distinct. Functions and
  symbols are outside the model; of inherited properties it keeps the names, where
  \<^verbatim>\<open>findMany\<close> reads a property under a name of the caller's choice.
\<close>

datatype jsnum = Finite rat | NaN | PosInfinity | NegInfinity

datatype jsval =
    VUndefined
  | VNull
  | VBool bool
  | VNum jsnum
  | VStr string
  | VDate "int option"
  | VArr "jsval list"
  | VObj "(string \<times> jsval) list"

text \<open>The values JSON text can denote (what \<^verbatim>\<open>JSON.parse\<close> can return).\<close>

datatype json =
    JNull
  | JBool bool
  | JNum rat
  | JStr string
  | JArr "json list"
  | JObj "(string \<times> json) list"

text \<open>
  The text of a stored object. The program looks at such a text in two ways only: it
  tests it for emptiness (\<^verbatim>\<open>!jsonData\<close>) and hands it to \<^verbatim>\<open>JSON.parse\<close>. So a
  text is represented by what \<^verbatim>\<open>JSON.parse\<close> makes of it: \<open>JsonText j\<close> is a text
  that parses to \<open>j\<close> (as the output of \<^verbatim>\<open>JSON.stringify\<close> does, whatever its
  indentation), \<open>NotJson s\<close> is the text \<open>s\<close>, which \<^verbatim>\<open>JSON.parse\<close> rejects with a
  \<^verbatim>\<open>SyntaxError\<close>; the empty text is \<open>NotJson []\<close>.
\<close>

datatype body = JsonText json | NotJson string

text \<open>
  The two date conversions of the runtime, \<^verbatim>\<open>Date.prototype.toISOString\<close> and the
  string constructor \<^verbatim>\<open>new Date(s)\<close> (whose result on a text that is not in ISO
  format is implementation-defined), are parameters of the model.
\<close>

record platform =
  toISOString :: "int \<Rightarrow> string"
  Date_parse :: "string \<Rightarrow> int option"

datatype js_error = SyntaxError | TypeError | OtherError string

primrec of_json :: "json \<Rightarrow> jsval" where
  "of_json JNull = VNull"
| "of_json (JBool b) = VBool b"
| "of_json (JNum q) = VNum (Finite q)"
| "of_json (JStr s) = VStr s"
| "of_json (JArr xs) = VArr (map of_json xs)"
| "of_json (JObj kvs) = VObj (map (map_prod (\<lambda>k. k) of_json) kvs)"

definition JSON_parse :: "body \<Rightarrow> js_error + jsval" where
  "JSON_parse b = (case b of JsonText j \<Rightarrow> Inr (of_json j) | NotJson s \<Rightarrow> Inl SyntaxError)"

text \<open>
  \<^verbatim>\<open>JSON.stringify\<close>: \<open>toJSON\<close> is the value serialised for a property or an array
  element, \<open>None\<close> where \<^verbatim>\<open>JSON.stringify\<close> gives \<^verbatim>\<open>undefined\<close>. A property whose
  value is \<^verbatim>\<open>undefined\<close> is left out, an array element that is \<^verbatim>\<open>undefined\<close> becomes
  \<^verbatim>\<open>null\<close>, a number that is not finite becomes \<^verbatim>\<open>null\<close>, and a \<^verbatim>\<open>Date\<close> is
  replaced by the result of its \<^verbatim>\<open>toJSON\<close> method: its ISO string, or \<^verbatim>\<open>null\<close> when
  the date is invalid.
\<close>

fun toJSON :: "platform \<Rightarrow> jsval \<Rightarrow> json option"
  and toJSON_elements :: "platform \<Rightarrow> jsval list \<Rightarrow> json list"
  and toJSON_properties :: "platform \<Rightarrow> (string \<times> jsval) list \<Rightarrow> (string \<times> json) list"
where
  "toJSON P VUndefined = None"
| "toJSON P VNull = Some JNull"
| "toJSON P (VBool b) = Some (JBool b)"
| "toJSON P (VNum n) = Some (case n of Finite q \<Rightarrow> JNum q | _ \<Rightarrow> JNull)"
| "toJSON P (VStr s) = Some (JStr s)"
| "toJSON P (VDate d) = Some (case d of Some t \<Rightarrow> JStr (toISOString P t) | None \<Rightarrow> JNull)"
| "toJSON P (VArr xs) = Some (JArr (toJSON_elements P xs))"
| "toJSON P (VObj kvs) = Some (JObj (toJSON_properties P kvs))"
| "toJSON_elements P [] = []"
| "toJSON_elements P (x # xs) =
     (case toJSON P x of Some j \<Rightarrow> j | None \<Rightarrow> JNull) # toJSON_elements P xs"
| "toJSON_properties P [] = []"
| "toJSON_properties P ((k, v) # kvs) =
     (case toJSON P v of
        Some j \<Rightarrow> (k, j) # toJSON_properties P kvs
      | None \<Rightarrow> toJSON_properties P kvs)"

text \<open>
  \<^verbatim>\<open>JSON.stringify(record, null, 2)\<close> on an object, the only use the source makes of
  it: the argument is the property list of the object literal.
\<close>

definition JSON_stringify :: "platform \<Rightarrow> (string \<times> jsval) list \<Rightarrow> body" where
  "JSON_stringify P props = JsonText (JObj (toJSON_properties P props))"

subsection \<open>Property access, spread, truthiness, strict equality\<close>

function decimal :: "nat \<Rightarrow> string" where
  "decimal n =
     (if n < 10 then [char_of (48 + n)]
      else decimal (n div 10) @ [char_of (48 + n mod 10)])"
  by pat_completeness auto
termination
  by (relation "measure id") auto

text \<open>
  The own enumerable properties of a value, as an object spread \<^verbatim>\<open>{...v}\<close> copies
  them: those of an object; the elements of an array and the characters of a string under
  their decimal indices; none for any other value (\<^verbatim>\<open>null\<close> and \<^verbatim>\<open>undefined\<close>
  included).
\<close>

fun spread :: "jsval \<Rightarrow> (string \<times> jsval) list" where
  "spread (VObj kvs) = kvs"
| "spread (VArr xs) = zip (map decimal [0..<length xs]) xs"
| "spread (VStr s) = zip (map decimal [0..<length s]) (map (\<lambda>c. VStr [c]) s)"
| "spread v = []"

text \<open>
  The own property of a value under a name, \<^verbatim>\<open>undefined\<close> when it has none. It is
  what \<^verbatim>\<open>v.id\<close>, \<^verbatim>\<open>v.createdAt\<close> and \<^verbatim>\<open>v.updatedAt\<close> give for a value that
  is neither \<^verbatim>\<open>null\<close> nor \<^verbatim>\<open>undefined\<close> (there the access throws a
  \<^verbatim>\<open>TypeError\<close>, which the callers below test for first): no standard prototype has
  a property of one of these names, so the prototype chain adds nothing to these reads.
\<close>

fun js_get :: "jsval \<Rightarrow> string \<Rightarrow> jsval" where
  "js_get (VObj kvs) k = (case map_of kvs k of Some v \<Rightarrow> v | None \<Rightarrow> VUndefined)"
| "js_get (VArr xs) k =
     (if k = ''length'' then VNum (Finite (of_nat (length xs)))
      else case map_of (spread (VArr xs)) k of Some v \<Rightarrow> v | None \<Rightarrow> VUndefined)"
| "js_get (VStr s) k =
     (if k = ''length'' then VNum (Finite (of_nat (length s)))
      else case map_of (spread (VStr s)) k of Some v \<Rightarrow> v | None \<Rightarrow> VUndefined)"
| "js_get v k = VUndefined"

text \<open>\<^verbatim>\<open>record[k] = v\<close> on an object: the property keeps its place, or is added last.\<close>

fun js_set :: "jsval \<Rightarrow> string \<Rightarrow> jsval \<Rightarrow> jsval" where
  "js_set (VObj kvs) k v = VObj (AList.update k v kvs)"
| "js_set r k v = r"

fun truthy :: "jsval \<Rightarrow> bool" where
  "truthy VUndefined = False"
| "truthy VNull = False"
| "truthy (VBool b) = b"
| "truthy (VNum n) = (case n of Finite q \<Rightarrow> q \<noteq> 0 | NaN \<Rightarrow> False | _ \<Rightarrow> True)"
| "truthy (VStr s) = (s \<noteq> [])"
| "truthy v = True"

text \<open>
  \<^verbatim>\<open>a === b\<close> where \<open>a\<close> was read from a record that \<^verbatim>\<open>findMany\<close> has just built
  and \<open>b\<close> comes from the caller: primitives are compared by value (\<^verbatim>\<open>NaN\<close> equals
  nothing), and an object, an array or a date on either side makes the comparison false,
  since \<^verbatim>\<open>===\<close> compares references and the freshly parsed record shares none with the
  caller.
\<close>

fun strict_equals :: "jsval \<Rightarrow> jsval \<Rightarrow> bool" where
  "strict_equals VUndefined VUndefined = True"
| "strict_equals VNull VNull = True"
| "strict_equals (VBool a) (VBool b) = (a = b)"
| "strict_equals (VNum a) (VNum b) = (a = b \<and> a \<noteq> NaN)"
| "strict_equals (VStr a) (VStr b) = (a = b)"
| "strict_equals a b = False"

section \<open>Errors\<close>

text \<open>
  \<^verbatim>\<open>BucketORMError\<close> has four codes, a message and optional details. Messages are not
  modelled. The details are absent, the error that was caught (\<^verbatim>\<open>details: error\<close>) or
  the issues of a \<^verbatim>\<open>ZodError\<close> (\<^verbatim>\<open>details: error.errors\<close>), each issue with the path
  of the field (property names and array indices) and a message.
\<close>

datatype error_code = RECORD_NOT_FOUND | RECORD_ALREADY_EXISTS | STORAGE_ERROR | INVALID_DATA

datatype path_segment = Key string | Index nat

record issue =
  path :: "path_segment list"
  message :: string

datatype details = NoDetails | Cause js_error | Issues "issue list"

text \<open>What an operation can throw: a \<^verbatim>\<open>BucketORMException\<close>, or an error of the runtime.\<close>

datatype exn = BucketORMException error_code details | Native js_error

section \<open>The storage adapter\<close>

text \<open>
  \<^verbatim>\<open>StorageAdapter\<close> is an interface of four operations. The model is a bucket that
  keeps what is uploaded: a list of keys with their bodies, and the log of the calls made
  to it, so that a theorem can say which calls an operation issues. \<^verbatim>\<open>download\<close>
  returns \<^verbatim>\<open>null\<close> (\<open>None\<close>) for a key that is not there. Failures of the collaborator
  itself (network, credentials) are not modelled.
\<close>

datatype call = Upload string body | Download string | Delete string | List string

record storage =
  objects :: "(string \<times> body) list"
  calls :: "call list"

definition upload :: "string \<Rightarrow> body \<Rightarrow> storage \<Rightarrow> storage" where
  "upload key data st =
     st\<lparr>objects := AList.update key data (objects st), calls := calls st @ [Upload key data]\<rparr>"

definition download :: "string \<Rightarrow> storage \<Rightarrow> body option \<times> storage" where
  "download key st = (map_of (objects st) key, st\<lparr>calls := calls st @ [Download key]\<rparr>)"

definition delete_object :: "string \<Rightarrow> storage \<Rightarrow> storage" where
  "delete_object key st =
     st\<lparr>objects := AList.delete key (objects st), calls := calls st @ [Delete key]\<rparr>"

definition list_keys :: "string \<Rightarrow> storage \<Rightarrow> string list \<times> storage" where
  "list_keys pfx st =
     (filter (prefix pfx) (map fst (objects st)), st\<lparr>calls := calls st @ [List pfx]\<rparr>)"

section \<open>BucketModel\<close>

text \<open>
  A \<^verbatim>\<open>BucketModel\<close> is bound to a model name \<open>m\<close> and to the storage adapter. Every
  operation takes the storage and returns it with its result: \<open>Inl\<close> what was thrown,
  \<open>Inr\<close> what was returned. \<^verbatim>\<open>new Date()\<close> reads the clock: the time \<open>now\<close> is an
  argument of \<open>create\<close> and \<open>update\<close>.
\<close>

definition generateKey :: "string \<Rightarrow> string \<Rightarrow> string" where
  "generateKey m ident = m @ ''/'' @ ident @ ''.json''"

text \<open>\<^verbatim>\<open>v && typeof v === 'string'\<close>: a string that is not empty.\<close>

fun nonempty_string :: "jsval \<Rightarrow> bool" where
  "nonempty_string (VStr s) = (s \<noteq> [])"
| "nonempty_string v = False"

text \<open>\<^verbatim>\<open>new Date(v)\<close> for a string \<open>v\<close> (the only argument the source passes).\<close>

fun new_Date :: "platform \<Rightarrow> jsval \<Rightarrow> jsval" where
  "new_Date P (VStr s) = VDate (Date_parse P s)"
| "new_Date P v = VDate None"

text \<open>
  \<^verbatim>\<open>if (record.f && typeof record.f === 'string') record.f = new Date(record.f)\<close>,
  for \<open>f\<close> one of \<^verbatim>\<open>createdAt\<close>, \<^verbatim>\<open>updatedAt\<close>.
\<close>

definition revive_date :: "platform \<Rightarrow> string \<Rightarrow> jsval \<Rightarrow> jsval" where
  "revive_date P f record =
     (if nonempty_string (js_get record f) then js_set record f (new_Date P (js_get record f))
      else record)"

text \<open>
  The body of \<^verbatim>\<open>getRecord\<close> after the download, inside its \<^verbatim>\<open>try\<close>: parse the text
  and turn the two date strings back into dates. \<^verbatim>\<open>JSON.parse\<close> throws on a text that is
  not JSON, and reading \<^verbatim>\<open>record.createdAt\<close> throws when the text is \<^verbatim>\<open>null\<close>.
\<close>

definition decode :: "platform \<Rightarrow> body \<Rightarrow> js_error + jsval" where
  "decode P jsonData =
     (case JSON_parse jsonData of
        Inl e \<Rightarrow> Inl e
      | Inr record \<Rightarrow>
          if record = VNull then Inl TypeError
          else Inr (revive_date P ''updatedAt'' (revive_date P ''createdAt'' record)))"

text \<open>
  \<^verbatim>\<open>getRecord\<close>: \<^verbatim>\<open>null\<close> when the download gives nothing or an empty text
  (\<^verbatim>\<open>!jsonData\<close>); an error that is not a \<^verbatim>\<open>BucketORMException\<close> is caught and
  wrapped with the code \<^verbatim>\<open>STORAGE_ERROR\<close>.
\<close>

definition getRecord :: "platform \<Rightarrow> string \<Rightarrow> string \<Rightarrow> storage \<Rightarrow> (exn + jsval) \<times> storage" where
  "getRecord P m ident st =
     (let key = generateKey m ident;
          (jsonData, st1) = download key st
      in case jsonData of
           None \<Rightarrow> (Inr VNull, st1)
         | Some text \<Rightarrow>
             if text = NotJson [] then (Inr VNull, st1)
             else (case decode P text of
                     Inl e \<Rightarrow> (Inl (BucketORMException STORAGE_ERROR (Cause e)), st1)
                   | Inr record \<Rightarrow> (Inr record, st1)))"

text \<open>
  \<^verbatim>\<open>create\<close>. Reading \<^verbatim>\<open>data.id\<close> throws a \<^verbatim>\<open>TypeError\<close> when \<open>data\<close> is
  \<^verbatim>\<open>null\<close> or \<^verbatim>\<open>undefined\<close> (typed callers always pass an object;
  \<^verbatim>\<open>createWithValidation\<close> passes what the schema returns).
\<close>

definition create :: "platform \<Rightarrow> string \<Rightarrow> int \<Rightarrow> jsval \<Rightarrow> storage \<Rightarrow> (exn + jsval) \<times> storage" where
  "create P m now data st =
     (if data = VNull \<or> data = VUndefined then (Inl (Native TypeError), st)
      else if \<not> nonempty_string (js_get data ''id'')
      then (Inl (BucketORMException INVALID_DATA NoDetails), st)
      else case js_get data ''id'' of
        VStr ident \<Rightarrow>
          (case getRecord P m ident st of
             (Inl e, st1) \<Rightarrow> (Inl e, st1)
           | (Inr existingRecord, st1) \<Rightarrow>
               if truthy existingRecord
               then (Inl (BucketORMException RECORD_ALREADY_EXISTS NoDetails), st1)
               else
                 let record = AList.update ''updatedAt'' (VDate (Some now))
                                (AList.update ''createdAt'' (VDate (Some now)) (spread data));
                     key = generateKey m ident;
                     jsonData = JSON_stringify P record
                 in (Inr (VObj record), upload key jsonData st1))
      | _ \<Rightarrow> (Inl (BucketORMException INVALID_DATA NoDetails), st))"

text \<open>
  \<^verbatim>\<open>findOne\<close>, \<^verbatim>\<open>update\<close> and \<^verbatim>\<open>delete\<close> take the id as a \<^verbatim>\<open>string\<close>; of
  the test \<^verbatim>\<open>!id || typeof id !== 'string'\<close> the emptiness is what remains.
\<close>

definition findOne :: "platform \<Rightarrow> string \<Rightarrow> string \<Rightarrow> storage \<Rightarrow> (exn + jsval) \<times> storage" where
  "findOne P m ident st =
     (if ident = [] then (Inl (BucketORMException INVALID_DATA NoDetails), st)
      else getRecord P m ident st)"

definition update :: "platform \<Rightarrow> string \<Rightarrow> int \<Rightarrow> string \<Rightarrow> jsval \<Rightarrow> storage \<Rightarrow> (exn + jsval) \<times> storage" where
  "update P m now ident data st =
     (if ident = [] then (Inl (BucketORMException INVALID_DATA NoDetails), st)
      else case getRecord P m ident st of
        (Inl e, st1) \<Rightarrow> (Inl e, st1)
      | (Inr existingRecord, st1) \<Rightarrow>
          if \<not> truthy existingRecord
          then (Inl (BucketORMException RECORD_NOT_FOUND NoDetails), st1)
          else
            let updatedRecord =
                  AList.update ''updatedAt'' (VDate (Some now))
                    (AList.update ''createdAt'' (js_get existingRecord ''createdAt'')
                      (AList.update ''id'' (VStr ident)
                        (AList.updates (map fst (spread data)) (map snd (spread data))
                          (spread existingRecord))));
                key = generateKey m ident;
                jsonData = JSON_stringify P updatedRecord
            in (Inr (VObj updatedRecord), upload key jsonData st1))"

definition delete :: "platform \<Rightarrow> string \<Rightarrow> string \<Rightarrow> storage \<Rightarrow> (exn + unit) \<times> storage" where
  "delete P m ident st =
     (if ident = [] then (Inl (BucketORMException INVALID_DATA NoDetails), st)
      else case getRecord P m ident st of
        (Inl e, st1) \<Rightarrow> (Inl e, st1)
      | (Inr existingRecord, st1) \<Rightarrow>
          if \<not> truthy existingRecord
          then (Inl (BucketORMException RECORD_NOT_FOUND NoDetails), st1)
          else (Inr (), delete_object (generateKey m ident) st1))"

subsection \<open>findMany\<close>

text \<open>
  \<^verbatim>\<open>s.replace(pat, '')\<close> with a string pattern: the first occurrence of \<open>pat\<close> is
  removed, the rest of \<open>s\<close> stays.
\<close>

fun remove_first :: "string \<Rightarrow> string \<Rightarrow> string" where
  "remove_first pat [] = []"
| "remove_first pat (c # cs) =
     (if prefix pat (c # cs) then drop (length pat) (c # cs) else c # remove_first pat cs)"

text \<open>
  \<^verbatim>\<open>xs.slice(start)\<close> and \<^verbatim>\<open>xs.slice(start, end)\<close>. Each argument is a number; it is
  made an integer first (\<^verbatim>\<open>NaN\<close> counts as 0, a fraction is cut off towards 0, the
  infinities stay), a negative one counts from the end, and the result is clamped to the
  length.
\<close>

definition to_integer :: "rat \<Rightarrow> int" where
  "to_integer q = (if q < 0 then \<lceil>q\<rceil> else \<lfloor>q\<rfloor>)"

fun slice_index :: "nat \<Rightarrow> jsnum \<Rightarrow> nat" where
  "slice_index len (Finite q) =
     (let i = to_integer q in if i < 0 then nat (max (int len + i) 0) else min (nat i) len)"
| "slice_index len NaN = 0"
| "slice_index len PosInfinity = len"
| "slice_index len NegInfinity = 0"

definition slice :: "'a list \<Rightarrow> jsnum \<Rightarrow> jsnum option \<Rightarrow> 'a list" where
  "slice xs start fin =
     (let k = slice_index (length xs) start;
          final = (case fin of None \<Rightarrow> length xs | Some e \<Rightarrow> slice_index (length xs) e)
      in take (final - k) (drop k xs))"

text \<open>A count as a JavaScript number.\<close>

definition js_number :: "nat \<Rightarrow> jsnum" where
  "js_number n = Finite (of_nat n)"

record FindManyOptions =
  opt_where :: "(string \<times> jsval) list option"
  opt_limit :: "jsnum option"
  opt_offset :: "jsnum option"

text \<open>
  \<^verbatim>\<open>record[key]\<close> in the filter of \<^verbatim>\<open>findMany\<close> can be asked for any name, so it
  is read as the language reads it: an own property first, then the prototype chain of the
  value. What the standard prototypes hold under their names are functions (and, under
  \<^verbatim>\<open>__proto__\<close>, the prototype itself), which are not values of this model; so of
  the chain the model keeps the names, as ECMAScript 2023 lists them.
\<close>

fun own_property :: "jsval \<Rightarrow> string \<Rightarrow> jsval option" where
  "own_property (VObj kvs) k = map_of kvs k"
| "own_property (VArr xs) k =
     (if k = ''length'' then Some (VNum (Finite (of_nat (length xs))))
      else map_of (spread (VArr xs)) k)"
| "own_property (VStr s) k =
     (if k = ''length'' then Some (VNum (Finite (of_nat (length s))))
      else map_of (spread (VStr s)) k)"
| "own_property v k = None"

definition object_prototype_names :: "string list" where
  "object_prototype_names =
     [''constructor'', ''__defineGetter__'', ''__defineSetter__'', ''hasOwnProperty'',
      ''__lookupGetter__'', ''__lookupSetter__'', ''isPrototypeOf'', ''propertyIsEnumerable'',
      ''toString'', ''valueOf'', ''__proto__'', ''toLocaleString'']"

definition array_prototype_names :: "string list" where
  "array_prototype_names =
     [''at'', ''concat'', ''copyWithin'', ''entries'', ''every'', ''fill'', ''filter'', ''find'',
      ''findIndex'', ''findLast'', ''findLastIndex'', ''flat'', ''flatMap'', ''forEach'',
      ''includes'', ''indexOf'', ''join'', ''keys'', ''lastIndexOf'', ''map'', ''pop'', ''push'',
      ''reduce'', ''reduceRight'', ''reverse'', ''shift'', ''slice'', ''some'', ''sort'',
      ''splice'', ''toReversed'', ''toSorted'', ''toSpliced'', ''unshift'', ''values'', ''with'']"

definition string_prototype_names :: "string list" where
  "string_prototype_names =
     [''anchor'', ''at'', ''big'', ''blink'', ''bold'', ''charAt'', ''charCodeAt'',
      ''codePointAt'', ''concat'', ''endsWith'', ''fixed'', ''fontcolor'', ''fontsize'',
      ''includes'', ''indexOf'', ''italics'', ''lastIndexOf'', ''link'', ''localeCompare'',
      ''match'', ''matchAll'', ''normalize'', ''padEnd'', ''padStart'', ''repeat'', ''replace'',
      ''replaceAll'', ''search'', ''slice'', ''small'', ''split'', ''startsWith'', ''strike'',
      ''sub'', ''substr'', ''substring'', ''sup'', ''toLocaleLowerCase'', ''toLocaleUpperCase'',
      ''toLowerCase'', ''toUpperCase'', ''trim'', ''trimEnd'', ''trimLeft'', ''trimRight'',
      ''trimStart'']"

definition number_prototype_names :: "string list" where
  "number_prototype_names = [''toExponential'', ''toFixed'', ''toPrecision'']"

definition date_prototype_names :: "string list" where
  "date_prototype_names =
     [''getDate'', ''getDay'', ''getFullYear'', ''getHours'', ''getMilliseconds'', ''getMinutes'',
      ''getMonth'', ''getSeconds'', ''getTime'', ''getTimezoneOffset'', ''getUTCDate'',
      ''getUTCDay'', ''getUTCFullYear'', ''getUTCHours'', ''getUTCMilliseconds'',
      ''getUTCMinutes'', ''getUTCMonth'', ''getUTCSeconds'', ''getYear'', ''setDate'',
      ''setFullYear'', ''setHours'', ''setMilliseconds'', ''setMinutes'', ''setMonth'',
      ''setSeconds'', ''setTime'', ''setUTCDate'', ''setUTCFullYear'', ''setUTCHours'',
      ''setUTCMilliseconds'', ''setUTCMinutes'', ''setUTCMonth'', ''setUTCSeconds'', ''setYear'',
      ''toDateString'', ''toGMTString'', ''toISOString'', ''toJSON'', ''toLocaleDateString'',
      ''toLocaleTimeString'', ''toTimeString'', ''toUTCString'']"

text \<open>
  The names on the prototype chain of a value. Every chain ends in
  \<^verbatim>\<open>Object.prototype\<close>; \<^verbatim>\<open>Boolean.prototype\<close> adds no name of its own.
  \<^verbatim>\<open>null\<close> and \<^verbatim>\<open>undefined\<close> have no chain (and a property of them cannot be
  read at all); \<^verbatim>\<open>findMany\<close> reads properties of the records it has loaded, which
  are truthy.
\<close>

fun prototype_names :: "jsval \<Rightarrow> string list" where
  "prototype_names (VArr xs) = array_prototype_names @ object_prototype_names"
| "prototype_names (VStr s) = string_prototype_names @ object_prototype_names"
| "prototype_names (VNum n) = number_prototype_names @ object_prototype_names"
| "prototype_names (VDate d) = date_prototype_names @ object_prototype_names"
| "prototype_names VNull = []"
| "prototype_names VUndefined = []"
| "prototype_names v = object_prototype_names"

text \<open>
  \<^verbatim>\<open>record[key]\<close>: \<open>Some\<close> the value of an own property, \<open>Some VUndefined\<close> when
  the name is found nowhere, and \<open>None\<close> when the name is found on the prototype chain,
  where it holds a function or an object of the runtime.
\<close>

definition js_read :: "jsval \<Rightarrow> string \<Rightarrow> jsval option" where
  "js_read record key =
     (case own_property record key of
        Some v \<Rightarrow> Some v
      | None \<Rightarrow> if key \<in> set (prototype_names record) then None else Some VUndefined)"

text \<open>
  \<^verbatim>\<open>record[key] === value\<close>, for a \<open>value\<close> of the caller: a function or an object of
  the runtime is strictly equal to no value of the model.
\<close>

definition field_equals :: "jsval \<Rightarrow> string \<Rightarrow> jsval \<Rightarrow> bool" where
  "field_equals record key v =
     (case js_read record key of Some x \<Rightarrow> strict_equals x v | None \<Rightarrow> False)"

text \<open>
  \<^verbatim>\<open>Object.entries(options.where).every(([key, value]) => record[key] === value)\<close>
\<close>

definition matches :: "(string \<times> jsval) list \<Rightarrow> jsval \<Rightarrow> bool" where
  "matches clause record = list_all (\<lambda>(key, v). field_equals record key v) clause"

text \<open>
  The loop over the listed keys: the id is cut out of the key, the record is read with
  \<^verbatim>\<open>getRecord\<close>, and kept when it is truthy. An exception of \<^verbatim>\<open>getRecord\<close> ends the
  loop.
\<close>

fun load_records ::
  "platform \<Rightarrow> string \<Rightarrow> string list \<Rightarrow> jsval list \<Rightarrow> storage \<Rightarrow> (exn + jsval list) \<times> storage"
where
  "load_records P m [] records st = (Inr records, st)"
| "load_records P m (key # keys) records st =
     (let ident = remove_first ''.json'' (remove_first (m @ ''/'') key)
      in case getRecord P m ident st of
           (Inl e, st1) \<Rightarrow> (Inl e, st1)
         | (Inr record, st1) \<Rightarrow>
             load_records P m keys (if truthy record then records @ [record] else records) st1)"

text \<open>
  \<^verbatim>\<open>findMany\<close>. Everything that can throw inside its \<^verbatim>\<open>try\<close> throws a
  \<^verbatim>\<open>BucketORMException\<close>, which the \<^verbatim>\<open>catch\<close> throws again.
\<close>

definition findMany ::
  "platform \<Rightarrow> string \<Rightarrow> FindManyOptions option \<Rightarrow> storage \<Rightarrow> (exn + jsval list) \<times> storage"
where
  "findMany P m options st =
     (let pfx = m @ ''/'';
          (keys, st1) = list_keys pfx st;
          jsonKeys = filter (suffix ''.json'') keys
      in case load_records P m jsonKeys [] st1 of
           (Inl e, st2) \<Rightarrow> (Inl e, st2)
         | (Inr records, st2) \<Rightarrow>
             let filteredRecords =
                   (case Option.bind options opt_where of
                      Some clause \<Rightarrow> filter (matches clause) records
                    | None \<Rightarrow> records);
                 offsetRecords =
                   (case Option.bind options opt_offset of
                      Some start \<Rightarrow> slice filteredRecords start None
                    | None \<Rightarrow> filteredRecords);
                 finalRecords =
                   (case Option.bind options opt_limit of
                      Some count \<Rightarrow> slice offsetRecords (Finite 0) (Some count)
                    | None \<Rightarrow> offsetRecords)
             in (Inr finalRecords, st2))"

section \<open>BucketSchemaModel\<close>

text \<open>
  The schema is a \<^verbatim>\<open>z.ZodTypeAny\<close> of the zod library. Of it the model keeps what
  \<^verbatim>\<open>schema.parse(data)\<close> does: it returns the validated data, throws a \<^verbatim>\<open>ZodError\<close>
  with its issues, or throws something else.
\<close>

datatype parse_outcome = Parsed jsval | ZodError "issue list" | Throws js_error

type_synonym zod_schema = "jsval \<Rightarrow> parse_outcome"

definition createWithValidation ::
  "platform \<Rightarrow> string \<Rightarrow> zod_schema \<Rightarrow> int \<Rightarrow> jsval \<Rightarrow> storage \<Rightarrow> (exn + jsval) \<times> storage"
where
  "createWithValidation P m sch now data st =
     (case sch data of
        Parsed validatedData \<Rightarrow> create P m now validatedData st
      | ZodError errors \<Rightarrow> (Inl (BucketORMException INVALID_DATA (Issues errors)), st)
      | Throws e \<Rightarrow> (Inl (Native e), st))"

section \<open>BucketORM: the registry of models\<close>

text \<open>
  \<^verbatim>\<open>BucketORM\<close> keeps one \<^verbatim>\<open>Map\<close> from strings to model objects. A model object
  is known by its reference \<open>ref\<close>, given out in the order of construction; it holds the
  model name, and a \<^verbatim>\<open>BucketSchemaModel\<close> holds its schema as well (\<open>None\<close> for a
  plain \<^verbatim>\<open>BucketModel\<close>).
\<close>

record 's model_object =
  ref :: nat
  modelName :: string
  schema :: "'s option"

record 's BucketORM =
  models :: "string \<rightharpoonup> 's model_object"
  constructed :: nat

definition model :: "string \<Rightarrow> 's BucketORM \<Rightarrow> 's model_object \<times> 's BucketORM" where
  "model name orm =
     (case models orm name of
        Some found \<Rightarrow> (found, orm)
      | None \<Rightarrow>
          let new = \<lparr>ref = constructed orm, modelName = name, schema = None\<rparr>
          in (new, orm\<lparr>models := (models orm)(name \<mapsto> new), constructed := Suc (constructed orm)\<rparr>))"

definition schemaModel :: "string \<Rightarrow> 's \<Rightarrow> 's BucketORM \<Rightarrow> 's model_object \<times> 's BucketORM" where
  "schemaModel name schemaDefinition orm =
     (let schemaKey = name @ ''_schema''
      in case models orm schemaKey of
           Some found \<Rightarrow> (found, orm)
         | None \<Rightarrow>
             let new = \<lparr>ref = constructed orm, modelName = name, schema = Some schemaDefinition\<rparr>
             in (new, orm\<lparr>models := (models orm)(schemaKey \<mapsto> new),
                          constructed := Suc (constructed orm)\<rparr>))"

text \<open>
  \<^verbatim>\<open>getSchema()\<close> is a method of \<^verbatim>\<open>BucketSchemaModel\<close> only: on a plain
  \<^verbatim>\<open>BucketModel\<close> the call throws a \<^verbatim>\<open>TypeError\<close>.
\<close>

definition getSchema :: "'s model_object \<Rightarrow> js_error + 's" where
  "getSchema obj = (case schema obj of Some s \<Rightarrow> Inr s | None \<Rightarrow> Inl TypeError)"

section \<open>Records that survive serialisation\<close>

text \<open>
  A plain value is one that JSON text denotes: \<^verbatim>\<open>null\<close>, a boolean, a finite number,
  a string, and arrays and objects of plain values. It is what is left of the values of
  the model when \<^verbatim>\<open>undefined\<close>, the numbers that are not finite and dates are taken
  away.
\<close>

fun plain :: "jsval \<Rightarrow> bool"
  and plain_elements :: "jsval list \<Rightarrow> bool"
  and plain_properties :: "(string \<times> jsval) list \<Rightarrow> bool"
where
  "plain VUndefined = False"
| "plain VNull = True"
| "plain (VBool b) = True"
| "plain (VNum n) = (case n of Finite q \<Rightarrow> True | _ \<Rightarrow> False)"
| "plain (VStr s) = True"
| "plain (VDate d) = False"
| "plain (VArr xs) = plain_elements xs"
| "plain (VObj kvs) = plain_properties kvs"
| "plain_elements [] = True"
| "plain_elements (x # xs) = (plain x \<and> plain_elements xs)"
| "plain_properties [] = True"
| "plain_properties ((k, v) # kvs) = (plain v \<and> plain_properties kvs)"

text \<open>
  A record as the system writes it: an object (its property names are distinct) with a
  string \<^verbatim>\<open>id\<close>, valid dates \<^verbatim>\<open>createdAt\<close> and \<^verbatim>\<open>updatedAt\<close>, and plain
  values in the fields of the caller.
\<close>

definition valid_record :: "(string \<times> jsval) list \<Rightarrow> bool" where
  "valid_record r =
     (distinct (map fst r)
      \<and> (\<exists>i. map_of r ''id'' = Some (VStr i))
      \<and> (\<exists>c. map_of r ''createdAt'' = Some (VDate (Some c)))
      \<and> (\<exists>u. map_of r ''updatedAt'' = Some (VDate (Some u)))
      \<and> list_all (\<lambda>(k, v). k = ''createdAt'' \<or> k = ''updatedAt'' \<or> plain v) r)"

text \<open>
  What the runtime promises of a valid date: its ISO string is not empty, and the string
  constructor of \<^verbatim>\<open>Date\<close> reads it back as the same instant.
\<close>

definition survives :: "platform \<Rightarrow> jsval \<Rightarrow> bool" where
  "survives P v =
     (case v of
        VDate (Some t) \<Rightarrow> toISOString P t \<noteq> [] \<and> Date_parse P (toISOString P t) = Some t
      | _ \<Rightarrow> False)"

section \<open>Example data\<close>

text \<open>
  The date conversions at the two instants the examples use, 0 ms and 1000 ms after the
  epoch, as the runtime gives them; for the rest the example platform answers with the
  empty string and the invalid date.
\<close>

definition example_platform :: platform where
  "example_platform =
     \<lparr>toISOString = (\<lambda>t. if t = 0 then ''1970-01-01T00:00:00.000Z''
                          else if t = 1000 then ''1970-01-01T00:00:01.000Z'' else []),
      Date_parse = (\<lambda>s. if s = ''1970-01-01T00:00:00.000Z'' then Some 0
                         else if s = ''1970-01-01T00:00:01.000Z'' then Some 1000 else None)\<rparr>"

definition empty_bucket :: storage where "empty_bucket = \<lparr>objects = [], calls = []\<rparr>"

text \<open>A payload, the record \<^verbatim>\<open>create\<close> makes of it at time 0, and the bucket after that.\<close>

definition alice :: jsval where
  "alice = VObj [(''id'', VStr ''u1''), (''name'', VStr ''A''), (''active'', VBool True)]"

definition alice_record :: "(string \<times> jsval) list" where
  "alice_record = [(''id'', VStr ''u1''), (''name'', VStr ''A''), (''active'', VBool True),
      (''createdAt'', VDate (Some 0)), (''updatedAt'', VDate (Some 0))]"

definition alice_json :: body where
  "alice_json = JsonText (JObj [(''id'', JStr ''u1''), (''name'', JStr ''A''), (''active'', JBool True),
      (''createdAt'', JStr ''1970-01-01T00:00:00.000Z''),
      (''updatedAt'', JStr ''1970-01-01T00:00:00.000Z'')])"

definition alice_bucket :: storage where
  "alice_bucket = \<lparr>objects = [(''user/u1.json'', alice_json)],
                    calls = [Download ''user/u1.json'', Upload ''user/u1.json'' alice_json]\<rparr>"

text \<open>A second record, and a bucket that holds both.\<close>

definition bob_json :: body where
  "bob_json = JsonText (JObj [(''id'', JStr ''u2''), (''name'', JStr ''B''), (''active'', JBool False),
      (''createdAt'', JStr ''1970-01-01T00:00:01.000Z''),
      (''updatedAt'', JStr ''1970-01-01T00:00:01.000Z'')])"

definition bob_record :: "(string \<times> jsval) list" where
  "bob_record = [(''id'', VStr ''u2''), (''name'', VStr ''B''), (''active'', VBool False),
      (''createdAt'', VDate (Some 1000)), (''updatedAt'', VDate (Some 1000))]"

definition two_users :: storage where
  "two_users = \<lparr>objects = [(''user/u1.json'', alice_json), (''user/u2.json'', bob_json)], calls = []\<rparr>"

definition two_users_read :: storage where
  "two_users_read = two_users\<lparr>calls := [List ''user/'', Download ''user/u1.json'', Download ''user/u2.json'']\<rparr>"

text \<open>A record whose id has \<^verbatim>\<open>.json\<close> inside, and the bucket after its creation.\<close>

definition dotted :: jsval where
  "dotted = VObj [(''id'', VStr ''a.json.b''), (''name'', VStr ''D'')]"

definition dotted_record :: "(string \<times> jsval) list" where
  "dotted_record = [(''id'', VStr ''a.json.b''), (''name'', VStr ''D''),
      (''createdAt'', VDate (Some 0)), (''updatedAt'', VDate (Some 0))]"

definition dotted_bucket :: storage where
  "dotted_bucket = snd (create example_platform ''user'' 0 dotted empty_bucket)"

text \<open>A record with a date among the fields of the caller.\<close>

definition login_record :: "(string \<times> jsval) list" where
  "login_record = [(''id'', VStr ''u1''), (''lastLogin'', VDate (Some 1000)),
      (''createdAt'', VDate (Some 0)), (''updatedAt'', VDate (Some 0))]"

text \<open>A stored object that is not JSON.\<close>

definition corrupt_bucket :: storage where
  "corrupt_bucket = \<lparr>objects = [(''user/u1.json'', NotJson ''{oops'')], calls = []\<rparr>"

text \<open>
  A schema that asks for an \<^verbatim>\<open>age\<close> of at least 18 and for a \<^verbatim>\<open>name\<close>, and
  reports an issue for each of the two that is violated; two payloads for it.
\<close>

definition adult_schema :: zod_schema where
  "adult_schema data =
     (let age_issues =
            (case js_get data ''age'' of
               VNum (Finite a) \<Rightarrow>
                 if 18 \<le> a then []
                 else [\<lparr>path = [Key ''age''],
                        message = ''Number must be greater than or equal to 18''\<rparr>]
             | _ \<Rightarrow> [\<lparr>path = [Key ''age''], message = ''Required''\<rparr>]);
          name_issues =
            (case js_get data ''name'' of
               VStr s \<Rightarrow> []
             | _ \<Rightarrow> [\<lparr>path = [Key ''name''], message = ''Required''\<rparr>])
      in if age_issues @ name_issues = [] then Parsed data
         else ZodError (age_issues @ name_issues))"

definition minor :: jsval where
  "minor = VObj [(''id'', VStr ''u1''), (''age'', VNum (Finite 12))]"

definition adult :: jsval where
  "adult = VObj [(''id'', VStr ''u3''), (''name'', VStr ''C''), (''age'', VNum (Finite 30))]"

definition adult_record :: "(string \<times> jsval) list" where
  "adult_record = [(''id'', VStr ''u3''), (''name'', VStr ''C''), (''age'', VNum (Finite 30)),
      (''createdAt'', VDate (Some 1000)), (''updatedAt'', VDate (Some 1000))]"

text \<open>A registry in which nothing has been constructed; a schema is named by a string.\<close>

definition empty_orm :: "string BucketORM" where
  "empty_orm = \<lparr>models = Map.empty, constructed = 0\<rparr>"

section \<open>Reading a record\<close>

lemma getRecord_absent:
  "map_of (objects st) (generateKey m ident) = None \<Longrightarrow>
   getRecord P m ident st = (Inr VNull, st\<lparr>calls := calls st @ [Download (generateKey m ident)]\<rparr>)"
  by (simp add: getRecord_def download_def)

lemma getRecord_stored:
  "map_of (objects st) (generateKey m ident) = Some text \<Longrightarrow> text \<noteq> NotJson [] \<Longrightarrow>
   getRecord P m ident st =
     (case decode P text of
        Inl e \<Rightarrow> Inl (BucketORMException STORAGE_ERROR (Cause e))
      | Inr record \<Rightarrow> Inr record,
      st\<lparr>calls := calls st @ [Download (generateKey m ident)]\<rparr>)"
  by (simp add: getRecord_def download_def split: sum.splits)

lemma revive_date_object: "\<exists>props'. revive_date P f (VObj props) = VObj props'"
  by (simp add: revive_date_def)

lemma decode_object: "\<exists>props. decode P (JsonText (JObj kvs)) = Inr (VObj props)"
proof -
  obtain p1 where p1: "revive_date P ''createdAt'' (VObj (map (map_prod (\<lambda>k. k) of_json) kvs)) = VObj p1"
    using revive_date_object by blast
  obtain p2 where p2: "revive_date P ''updatedAt'' (VObj p1) = VObj p2"
    using revive_date_object by blast
  show ?thesis
    by (simp add: decode_def JSON_parse_def p1 p2)
qed

lemma objects_upload: "map_of (objects (upload key data st)) = (map_of (objects st))(key \<mapsto> data)"
  by (simp add: upload_def update_conv')

lemma getRecord_objects: "getRecord P m ident st = (r, st1) \<Longrightarrow> objects st1 = objects st"
  by (auto simp: getRecord_def download_def Let_def split: option.splits if_splits sum.splits)

lemma created_is_stored:
  assumes "create P m now data st = (Inr r, st1)" and "js_get data ''id'' = VStr X"
  shows "\<exists>props. map_of (objects st1) (generateKey m X) = Some (JSON_stringify P props)"
proof -
  obtain res st' where g: "getRecord P m X st = (res, st')"
    by (cases "getRecord P m X st")
  from assms g show ?thesis
    by (auto simp: create_def Let_def objects_upload split: if_splits sum.splits)
qed

lemma create_alice:
  "create example_platform ''user'' 0 alice empty_bucket = (Inr (VObj alice_record), alice_bucket)"
  by (simp add: create_def alice_def getRecord_def download_def empty_bucket_def generateKey_def
      upload_def JSON_stringify_def example_platform_def alice_record_def alice_bucket_def
      alice_json_def Let_def)

lemma getRecord_alice:
  "getRecord example_platform ''user'' ''u1'' alice_bucket =
     (Inr (VObj alice_record), alice_bucket\<lparr>calls := calls alice_bucket @ [Download ''user/u1.json'']\<rparr>)"
  by (simp add: getRecord_def download_def generateKey_def alice_bucket_def alice_json_def
      decode_def JSON_parse_def revive_date_def example_platform_def alice_record_def Let_def)

section \<open>Create is not an upsert\<close>

text \<open>
  Claim C1. Once \<^verbatim>\<open>create\<close> has succeeded for the id \<open>X\<close>, a second
  \<^verbatim>\<open>create\<close> whose payload carries the id \<open>X\<close> throws
  \<^verbatim>\<open>RECORD_ALREADY_EXISTS\<close>, whatever else the payload holds and whatever the time.
  The storage it leaves differs from the one it found in the log only, by the one
  download of the existence check: nothing is uploaded, and the stored objects are the
  same.
\<close>

theorem create_twice_already_exists:
  assumes "js_get data1 ''id'' = VStr X" and "js_get data2 ''id'' = VStr X"
    and "create P m t1 data1 st = (Inr r, st1)"
  shows "create P m t2 data2 st1 =
           (Inl (BucketORMException RECORD_ALREADY_EXISTS NoDetails),
            st1\<lparr>calls := calls st1 @ [Download (generateKey m X)]\<rparr>)"
proof -
  from assms(3,1) obtain props where
    stored: "map_of (objects st1) (generateKey m X) = Some (JSON_stringify P props)"
    using created_is_stored by blast
  obtain props' where dec: "decode P (JSON_stringify P props) = Inr (VObj props')"
    unfolding JSON_stringify_def using decode_object by blast
  have get: "getRecord P m X st1 =
      (Inr (VObj props'), st1\<lparr>calls := calls st1 @ [Download (generateKey m X)]\<rparr>)"
    using getRecord_stored [OF stored] dec by (simp add: JSON_stringify_def)
  have X: "X \<noteq> []"
    using assms(3,1) by (auto simp: create_def split: if_splits)
  have nn: "data2 \<noteq> VNull" "data2 \<noteq> VUndefined"
    using assms(2) by auto
  show ?thesis
    using assms(2) X nn get by (simp add: create_def)
qed

theorem create_twice_already_exists_witness:
  "js_get alice ''id'' = VStr ''u1''
   \<and> js_get (VObj [(''id'', VStr ''u1''), (''name'', VStr ''B'')]) ''id'' = VStr ''u1''
   \<and> create example_platform ''user'' 0 alice empty_bucket = (Inr (VObj alice_record), alice_bucket)
   \<and> create example_platform ''user'' 1000 (VObj [(''id'', VStr ''u1''), (''name'', VStr ''B'')]) alice_bucket =
       (Inl (BucketORMException RECORD_ALREADY_EXISTS NoDetails),
        alice_bucket\<lparr>calls := calls alice_bucket @ [Download ''user/u1.json'']\<rparr>)"
proof -
  have a: "js_get alice ''id'' = VStr ''u1''"
    by (simp add: alice_def)
  have b: "js_get (VObj [(''id'', VStr ''u1''), (''name'', VStr ''B'')]) ''id'' = VStr ''u1''"
    by simp
  show ?thesis
    using create_twice_already_exists [OF a b create_alice, of 1000] a b create_alice
    by (simp add: generateKey_def)
qed

section \<open>A record that is not there\<close>

text \<open>
  Claim C3. For an id that is not empty and has no object under its key,
  \<^verbatim>\<open>findOne\<close> returns \<^verbatim>\<open>null\<close> without an error, while \<^verbatim>\<open>update\<close> and
  \<^verbatim>\<open>delete\<close> throw \<^verbatim>\<open>RECORD_NOT_FOUND\<close>. Each of them makes one call to the
  storage, the download: \<^verbatim>\<open>delete\<close> issues no delete, \<^verbatim>\<open>update\<close> no upload.
\<close>

theorem absent_record_not_found:
  assumes "ident \<noteq> []" and "map_of (objects st) (generateKey m ident) = None"
  shows "findOne P m ident st =
           (Inr VNull, st\<lparr>calls := calls st @ [Download (generateKey m ident)]\<rparr>)
       \<and> update P m now ident d st =
           (Inl (BucketORMException RECORD_NOT_FOUND NoDetails),
            st\<lparr>calls := calls st @ [Download (generateKey m ident)]\<rparr>)
       \<and> delete P m ident st =
           (Inl (BucketORMException RECORD_NOT_FOUND NoDetails),
            st\<lparr>calls := calls st @ [Download (generateKey m ident)]\<rparr>)"
  using assms by (simp add: findOne_def update_def delete_def getRecord_absent)

theorem absent_record_not_found_witness:
  "''u1'' \<noteq> [] \<and> map_of (objects empty_bucket) (generateKey ''user'' ''u1'') = None
   \<and> findOne example_platform ''user'' ''u1'' empty_bucket =
        (Inr VNull, \<lparr>objects = [], calls = [Download ''user/u1.json'']\<rparr>)
   \<and> update example_platform ''user'' 1000 ''u1'' (VObj [(''active'', VBool False)]) empty_bucket =
        (Inl (BucketORMException RECORD_NOT_FOUND NoDetails),
         \<lparr>objects = [], calls = [Download ''user/u1.json'']\<rparr>)
   \<and> delete example_platform ''user'' ''u1'' empty_bucket =
        (Inl (BucketORMException RECORD_NOT_FOUND NoDetails),
         \<lparr>objects = [], calls = [Download ''user/u1.json'']\<rparr>)"
  using absent_record_not_found [of "''u1''" empty_bucket "''user''" example_platform 1000
      "VObj [(''active'', VBool False)]"]
  by (simp add: empty_bucket_def generateKey_def)

section \<open>Update merges over the stored record\<close>

lemma map_of_spread_updates:
  "distinct (map fst d) \<Longrightarrow>
   map_of (AList.updates (map fst d) (map snd d) al) k =
     (case map_of d k of Some v \<Rightarrow> Some v | None \<Rightarrow> map_of al k)"
proof (induction d arbitrary: al)
  case Nil
  then show ?case by simp
next
  case (Cons a d)
  obtain k' v' where a: "a = (k', v')" by (cases a)
  from Cons.prems a have fresh: "map_of d k' = None" and dist: "distinct (map fst d)"
    by (auto simp: map_of_eq_None_iff)
  show ?case
    using Cons.IH [OF dist, of "AList.update k' v' al"] fresh
    by (auto simp: a update_conv' split: option.splits)
qed

text \<open>
  Claim C2. Let \<^verbatim>\<open>getRecord\<close> find the object \<open>existing\<close> under a nonempty id, and
  let \<open>d\<close> be the properties of the update payload (an object: its property names are
  distinct). Then \<^verbatim>\<open>update\<close> returns a record \<open>r\<close> and uploads the JSON text of
  \<open>r\<close> under the key of the id, replacing what was stored there and nothing else. In
  \<open>r\<close>, \<^verbatim>\<open>updatedAt\<close> is the time of the update, \<^verbatim>\<open>createdAt\<close> is the one of
  the existing record and \<^verbatim>\<open>id\<close> is the id that was asked for, whatever \<open>d\<close> says
  about them; every other field has the value \<open>d\<close> gives it, and the value of the
  existing record when \<open>d\<close> does not mention it.
\<close>

theorem update_merges:
  assumes "ident \<noteq> []"
    and "getRecord P m ident st = (Inr (VObj existing), st1)"
    and "distinct (map fst d)"
  shows "\<exists>r. update P m now ident (VObj d) st =
               (Inr (VObj r), upload (generateKey m ident) (JSON_stringify P r) st1)
           \<and> map_of (objects (upload (generateKey m ident) (JSON_stringify P r) st1))
               = (map_of (objects st))(generateKey m ident \<mapsto> JSON_stringify P r)
           \<and> (\<forall>k. js_get (VObj r) k =
                 (if k = ''updatedAt'' then VDate (Some now)
                  else if k = ''createdAt'' then js_get (VObj existing) ''createdAt''
                  else if k = ''id'' then VStr ident
                  else case map_of d k of
                         Some v \<Rightarrow> v
                       | None \<Rightarrow> js_get (VObj existing) k))"
proof -
  let ?r = "AList.update ''updatedAt'' (VDate (Some now))
              (AList.update ''createdAt'' (js_get (VObj existing) ''createdAt'')
                (AList.update ''id'' (VStr ident)
                  (AList.updates (map fst d) (map snd d) existing)))"
  have run: "update P m now ident (VObj d) st =
               (Inr (VObj ?r), upload (generateKey m ident) (JSON_stringify P ?r) st1)"
    using assms(1,2) by (simp add: update_def Let_def)
  have same: "objects st1 = objects st"
    using assms(2) by (rule getRecord_objects)
  have fields: "js_get (VObj ?r) k =
                 (if k = ''updatedAt'' then VDate (Some now)
                  else if k = ''createdAt'' then js_get (VObj existing) ''createdAt''
                  else if k = ''id'' then VStr ident
                  else case map_of d k of
                         Some v \<Rightarrow> v
                       | None \<Rightarrow> js_get (VObj existing) k)" for k
    by (simp add: update_conv' map_of_spread_updates [OF assms(3)] split: option.splits)
  show ?thesis
    using run same fields by (intro exI [of _ ?r] conjI allI) (simp_all add: objects_upload)
qed

theorem update_merges_witness:
  "''u1'' \<noteq> []
   \<and> getRecord example_platform ''user'' ''u1'' alice_bucket =
       (Inr (VObj alice_record), alice_bucket\<lparr>calls := calls alice_bucket @ [Download ''user/u1.json'']\<rparr>)
   \<and> distinct (map fst [(''id'', VStr ''zz''), (''createdAt'', VNull), (''name'', VStr ''Z'')])
   \<and> fst (update example_platform ''user'' 1000 ''u1''
          (VObj [(''id'', VStr ''zz''), (''createdAt'', VNull), (''name'', VStr ''Z'')]) alice_bucket) =
       Inr (VObj [(''id'', VStr ''u1''), (''name'', VStr ''Z''), (''active'', VBool True),
                  (''createdAt'', VDate (Some 0)), (''updatedAt'', VDate (Some 1000))])
   \<and> objects (snd (update example_platform ''user'' 1000 ''u1''
          (VObj [(''id'', VStr ''zz''), (''createdAt'', VNull), (''name'', VStr ''Z'')]) alice_bucket)) =
       [(''user/u1.json'',
         JsonText (JObj [(''id'', JStr ''u1''), (''name'', JStr ''Z''), (''active'', JBool True),
                         (''createdAt'', JStr ''1970-01-01T00:00:00.000Z''),
                         (''updatedAt'', JStr ''1970-01-01T00:00:01.000Z'')]))]"
proof -
  let ?d = "[(''id'', VStr ''zz''), (''createdAt'', VNull), (''name'', VStr ''Z'')]"
  have a: "''u1'' \<noteq> []" by simp
  have c: "distinct (map fst ?d)" by simp
  from update_merges [OF a getRecord_alice c, of 1000]
  obtain r where run: "update example_platform ''user'' 1000 ''u1'' (VObj ?d) alice_bucket =
        (Inr (VObj r), upload (generateKey ''user'' ''u1'') (JSON_stringify example_platform r)
           (alice_bucket\<lparr>calls := calls alice_bucket @ [Download ''user/u1.json'']\<rparr>))"
    by blast
  have "update example_platform ''user'' 1000 ''u1'' (VObj ?d) alice_bucket =
        (Inr (VObj [(''id'', VStr ''u1''), (''name'', VStr ''Z''), (''active'', VBool True),
                    (''createdAt'', VDate (Some 0)), (''updatedAt'', VDate (Some 1000))]),
         upload (generateKey ''user'' ''u1'')
           (JSON_stringify example_platform
              [(''id'', VStr ''u1''), (''name'', VStr ''Z''), (''active'', VBool True),
               (''createdAt'', VDate (Some 0)), (''updatedAt'', VDate (Some 1000))])
           (alice_bucket\<lparr>calls := calls alice_bucket @ [Download ''user/u1.json'']\<rparr>))"
    by (simp add: update_def getRecord_alice alice_record_def Let_def)
  with run have r: "r = [(''id'', VStr ''u1''), (''name'', VStr ''Z''), (''active'', VBool True),
                    (''createdAt'', VDate (Some 0)), (''updatedAt'', VDate (Some 1000))]"
    by simp
  show ?thesis
    using run getRecord_alice
    by (simp add: r upload_def JSON_stringify_def generateKey_def alice_bucket_def
        example_platform_def)
qed

section \<open>The codec: encode, then decode\<close>

lemma plain_round_trip:
  "plain v \<Longrightarrow> \<exists>j. toJSON P v = Some j \<and> of_json j = v"
  "plain_elements xs \<Longrightarrow> map of_json (toJSON_elements P xs) = xs"
  "plain_properties kvs \<Longrightarrow> map (map_prod (\<lambda>k. k) of_json) (toJSON_properties P kvs) = kvs"
proof (induction v and xs and kvs rule: plain_plain_elements_plain_properties.induct)
  case (4 n)
  then show ?case by (cases n) auto
qed auto

lemma update_over_map:
  "k \<in> set (map fst r) \<Longrightarrow> distinct (map fst r) \<Longrightarrow>
   AList.update k v (map (\<lambda>(k', v'). (k', g k' v')) r) =
     map (\<lambda>(k', v'). (k', if k' = k then v else g k' v')) r"
proof (induction r)
  case Nil
  then show ?case by simp
next
  case (Cons a r)
  obtain k' v' where a: "a = (k', v')" by (cases a)
  show ?case
  proof (cases "k' = k")
    case True
    with Cons.prems a have "k \<notin> set (map fst r)" by auto
    then have "map (\<lambda>(k', v'). (k', if k' = k then v else g k' v')) r =
               map (\<lambda>(k', v'). (k', g k' v')) r"
      by (intro map_cong) (auto simp: rev_image_eqI)
    with True a show ?thesis by simp
  next
    case False
    with Cons a show ?thesis by auto
  qed
qed

lemma map_of_over_map:
  "map_of (map (\<lambda>(k', v'). (k', g k' v')) r) k = map_option (g k) (map_of r k)"
  by (induction r) auto

text \<open>The property list as JSON.parse returns it from the text JSON.stringify wrote.\<close>

lemma reparsed_record:
  assumes "list_all (\<lambda>(k, v). k = ''createdAt'' \<or> k = ''updatedAt'' \<or> plain v) r"
    and "\<And>v. (''createdAt'', v) \<in> set r \<Longrightarrow> v = VDate (Some c)"
    and "\<And>v. (''updatedAt'', v) \<in> set r \<Longrightarrow> v = VDate (Some u)"
  shows "map (map_prod (\<lambda>k. k) of_json) (toJSON_properties P r) =
         map (\<lambda>(k, v). (k, if k = ''createdAt'' then VStr (toISOString P c)
                            else if k = ''updatedAt'' then VStr (toISOString P u) else v)) r"
  using assms
proof (induction r)
  case Nil
  then show ?case by simp
next
  case (Cons a r)
  obtain k v where a: "a = (k, v)" by (cases a)
  have IH: "map (map_prod (\<lambda>k. k) of_json) (toJSON_properties P r) =
         map (\<lambda>(k, v). (k, if k = ''createdAt'' then VStr (toISOString P c)
                            else if k = ''updatedAt'' then VStr (toISOString P u) else v)) r"
  proof (rule Cons.IH)
    show "list_all (\<lambda>(k, v). k = ''createdAt'' \<or> k = ''updatedAt'' \<or> plain v) r"
      using Cons.prems(1) by simp
    show "v = VDate (Some c)" if "(''createdAt'', v) \<in> set r" for v
      using that Cons.prems(2) by simp
    show "v = VDate (Some u)" if "(''updatedAt'', v) \<in> set r" for v
      using that Cons.prems(3) by simp
  qed
  consider "k = ''createdAt''" | "k = ''updatedAt''" | "k \<noteq> ''createdAt''" "k \<noteq> ''updatedAt''"
    by blast
  then show ?case
  proof cases
    case 1
    with Cons.prems(2) a have "v = VDate (Some c)" by auto
    with 1 a IH show ?thesis by simp
  next
    case 2
    with Cons.prems(3) a have "v = VDate (Some u)" by auto
    with 2 a IH show ?thesis by simp
  next
    case 3
    with Cons.prems(1) a have "plain v" by auto
    then obtain j where "toJSON P v = Some j" "of_json j = v"
      using plain_round_trip(1) by blast
    with 3 a IH show ?thesis by simp
  qed
qed

text \<open>
  Claim C4, as amended. The claim lets the caller's fields be arbitrary; a date among
  them does not come back (see the counterexample below), since \<^verbatim>\<open>getRecord\<close> turns
  two fields only back into dates. For a valid record, whose caller fields are plain
  values, decoding the text that \<^verbatim>\<open>JSON.stringify\<close> wrote gives the record again,
  field by field and in the same order: \<^verbatim>\<open>createdAt\<close> and \<^verbatim>\<open>updatedAt\<close> go
  through their ISO strings and come back as the same instants, given that the runtime
  reads its own ISO strings back (\<^verbatim>\<open>toISOString\<close> writes the date-time string format
  of ECMAScript, milliseconds included, which \<^verbatim>\<open>Date\<close> is required to parse).
\<close>

theorem decode_encode_record:
  assumes "valid_record r"
    and "survives P (js_get (VObj r) ''createdAt'')"
    and "survives P (js_get (VObj r) ''updatedAt'')"
  shows "decode P (JSON_stringify P r) = Inr (VObj r)"
proof -
  from assms(1) obtain c u where
    dist: "distinct (map fst r)" and
    c: "map_of r ''createdAt'' = Some (VDate (Some c))" and
    u: "map_of r ''updatedAt'' = Some (VDate (Some u))" and
    rest: "list_all (\<lambda>(k, v). k = ''createdAt'' \<or> k = ''updatedAt'' \<or> plain v) r"
    by (auto simp: valid_record_def)
  from assms(2) c have pc: "toISOString P c \<noteq> []" "Date_parse P (toISOString P c) = Some c"
    by (simp_all add: survives_def)
  from assms(3) u have pu: "toISOString P u \<noteq> []" "Date_parse P (toISOString P u) = Some u"
    by (simp_all add: survives_def)
  have only_c: "v = VDate (Some c)" if "(''createdAt'', v) \<in> set r" for v
    using that dist c by (simp add: map_of_eq_Some_iff)
  have only_u: "v = VDate (Some u)" if "(''updatedAt'', v) \<in> set r" for v
    using that dist u by (simp add: map_of_eq_Some_iff)
  let ?g = "\<lambda>k v. if k = ''createdAt'' then VStr (toISOString P c)
                  else if k = ''updatedAt'' then VStr (toISOString P u) else v"
  let ?r1 = "map (\<lambda>(k, v). (k, ?g k v)) r"
  have parsed: "JSON_parse (JSON_stringify P r) = Inr (VObj ?r1)"
    using reparsed_record [OF rest only_c only_u, of P]
    by (simp add: JSON_parse_def JSON_stringify_def)
  have in_c: "''createdAt'' \<in> set (map fst r)" and in_u: "''updatedAt'' \<in> set (map fst r)"
    using c u by (auto dest!: map_of_SomeD intro: rev_image_eqI)
  let ?g2 = "\<lambda>k v. if k = ''createdAt'' then VDate (Some c) else ?g k v"
  let ?r2 = "map (\<lambda>(k, v). (k, ?g2 k v)) r"
  have step1: "revive_date P ''createdAt'' (VObj ?r1) = VObj ?r2"
    using update_over_map [OF in_c dist, of "VDate (Some c)" ?g] pc c
    by (simp add: revive_date_def map_of_over_map)
  let ?g3 = "\<lambda>k v. if k = ''updatedAt'' then VDate (Some u) else ?g2 k v"
  let ?r3 = "map (\<lambda>(k, v). (k, ?g3 k v)) r"
  have step2: "revive_date P ''updatedAt'' (VObj ?r2) = VObj ?r3"
    using update_over_map [OF in_u dist, of "VDate (Some u)" ?g2] pu u
    by (simp add: revive_date_def map_of_over_map)
  have "?g3 k v = v" if "(k, v) \<in> set r" for k v
    using that only_c only_u by auto
  then have "?r3 = map (\<lambda>kv. kv) r"
    by (intro map_cong) auto
  then have restored: "?r3 = r" by simp
  show ?thesis
    unfolding decode_def parsed using step1 step2 restored by simp
qed

theorem decode_encode_record_witness:
  "valid_record alice_record
   \<and> survives example_platform (js_get (VObj alice_record) ''createdAt'')
   \<and> survives example_platform (js_get (VObj alice_record) ''updatedAt'')
   \<and> JSON_stringify example_platform alice_record = alice_json
   \<and> decode example_platform alice_json = Inr (VObj alice_record)"
proof -
  have a: "valid_record alice_record"
    by (simp add: valid_record_def alice_record_def)
  have b: "survives example_platform (js_get (VObj alice_record) ''createdAt'')"
    and c: "survives example_platform (js_get (VObj alice_record) ''updatedAt'')"
    by (simp_all add: survives_def alice_record_def example_platform_def)
  have d: "JSON_stringify example_platform alice_record = alice_json"
    by (simp add: JSON_stringify_def alice_record_def alice_json_def example_platform_def)
  show ?thesis
    using decode_encode_record [OF a b c] a b c d by simp
qed

text \<open>
  The counterexample to C4 as it is written: a record with the date \<^verbatim>\<open>lastLogin\<close>
  among the caller's fields. After encoding and decoding the field holds the ISO string
  of the date.
\<close>

theorem caller_date_counterexample:
  "decode example_platform (JSON_stringify example_platform login_record) =
     Inr (VObj [(''id'', VStr ''u1''), (''lastLogin'', VStr ''1970-01-01T00:00:01.000Z''),
                (''createdAt'', VDate (Some 0)), (''updatedAt'', VDate (Some 0))])
   \<and> decode example_platform (JSON_stringify example_platform login_record) \<noteq> Inr (VObj login_record)"
  by (simp add: decode_def JSON_parse_def JSON_stringify_def login_record_def revive_date_def
      example_platform_def)

section \<open>findMany: filter, offset, limit\<close>

lemma slice_from: "slice xs i None = drop (slice_index (length xs) i) xs"
  by (simp add: slice_def Let_def)

lemma slice_to: "slice xs (Finite 0) (Some n) = take (slice_index (length xs) n) xs"
  by (simp add: slice_def Let_def to_integer_def)

lemma slice_index_js_number: "slice_index len (js_number n) = min n len"
  by (simp add: js_number_def to_integer_def)

lemma take_min_length: "take (min n (length xs)) xs = take n xs"
  by (simp add: min_def)

lemma drop_min_length: "drop (min n (length xs)) xs = drop n xs"
  by (simp add: min_def)

lemma take_min_length_drop: "take (min n (length xs - i)) (drop i xs) = take n (drop i xs)"
  using take_min_length [of n "drop i xs"] by simp

text \<open>
  Claim C5. Let \<open>records\<close> be what \<^verbatim>\<open>findMany\<close> loads without options. With options
  it returns, without an error and after the same storage calls: of \<open>records\<close> those in
  which, for every entry of \<^verbatim>\<open>where\<close>, the property read under the name is strictly
  equal to the given value, when \<^verbatim>\<open>where\<close> is given; of these the ones from the index
  of \<^verbatim>\<open>offset\<close> to the end; of these as many as the index of \<^verbatim>\<open>limit\<close> says, from
  the front. The first half of the statement is that, for every number, with the index
  that \<^verbatim>\<open>slice\<close> makes of it. The second half reads it for counts: with an offset
  \<open>i\<close> and a limit \<open>n\<close> that are natural numbers, the result is the first \<open>n\<close> of
  what is left when the first \<open>i\<close> of the retained records are dropped, so at most
  \<open>n\<close> records, and possibly none.
\<close>

theorem findMany_options:
  assumes "findMany P m None st = (Inr records, st')"
  shows "findMany P m (Some opts) st =
    (Inr (let filtered =
               (case opt_where opts of
                  None \<Rightarrow> records
                | Some clause \<Rightarrow>
                    filter (\<lambda>r. list_all (\<lambda>(k, v). field_equals r k v) clause) records);
              skipped =
               (case opt_offset opts of
                  None \<Rightarrow> filtered
                | Some i \<Rightarrow> drop (slice_index (length filtered) i) filtered)
          in case opt_limit opts of
               None \<Rightarrow> skipped
             | Some n \<Rightarrow> take (slice_index (length skipped) n) skipped),
     st')
   \<and> (opt_offset opts = map_option js_number off \<and> opt_limit opts = map_option js_number cnt \<longrightarrow>
       findMany P m (Some opts) st =
         (Inr (let filtered =
                    (case opt_where opts of
                       None \<Rightarrow> records
                     | Some clause \<Rightarrow>
                         filter (\<lambda>r. list_all (\<lambda>(k, v). field_equals r k v) clause) records);
                   skipped = (case off of None \<Rightarrow> filtered | Some i \<Rightarrow> drop i filtered)
               in case cnt of None \<Rightarrow> skipped | Some n \<Rightarrow> take n skipped),
          st'))"
proof -
  obtain keys st1 where l: "list_keys (m @ ''/'') st = (keys, st1)"
    by (cases "list_keys (m @ ''/'') st")
  obtain res st2 where ld: "load_records P m (filter (suffix ''.json'') keys) [] st1 = (res, st2)"
    by (cases "load_records P m (filter (suffix ''.json'') keys) [] st1")
  from assms l ld have res: "res = Inr records" and st: "st2 = st'"
    by (auto simp: findMany_def Let_def split: sum.splits)
  have m: "matches clause = (\<lambda>r. list_all (\<lambda>(k, v). field_equals r k v) clause)" for clause
    by (rule ext) (simp add: matches_def)
  have any: "findMany P m (Some opts) st =
    (Inr (let filtered =
               (case opt_where opts of
                  None \<Rightarrow> records
                | Some clause \<Rightarrow>
                    filter (\<lambda>r. list_all (\<lambda>(k, v). field_equals r k v) clause) records);
              skipped =
               (case opt_offset opts of
                  None \<Rightarrow> filtered
                | Some i \<Rightarrow> drop (slice_index (length filtered) i) filtered)
          in case opt_limit opts of
               None \<Rightarrow> skipped
             | Some n \<Rightarrow> take (slice_index (length skipped) n) skipped),
     st')"
    using l ld res st
    by (simp add: findMany_def Let_def slice_from slice_to m split: option.splits)
  show ?thesis
  proof (intro conjI impI)
    show "findMany P m (Some opts) st =
      (Inr (let filtered =
               (case opt_where opts of
                  None \<Rightarrow> records
                | Some clause \<Rightarrow>
                    filter (\<lambda>r. list_all (\<lambda>(k, v). field_equals r k v) clause) records);
              skipped =
               (case opt_offset opts of
                  None \<Rightarrow> filtered
                | Some i \<Rightarrow> drop (slice_index (length filtered) i) filtered)
          in case opt_limit opts of
               None \<Rightarrow> skipped
             | Some n \<Rightarrow> take (slice_index (length skipped) n) skipped),
       st')"
      by (rule any)
  next
    assume "opt_offset opts = map_option js_number off \<and> opt_limit opts = map_option js_number cnt"
    then show "findMany P m (Some opts) st =
         (Inr (let filtered =
                    (case opt_where opts of
                       None \<Rightarrow> records
                     | Some clause \<Rightarrow>
                         filter (\<lambda>r. list_all (\<lambda>(k, v). field_equals r k v) clause) records);
                   skipped = (case off of None \<Rightarrow> filtered | Some i \<Rightarrow> drop i filtered)
               in case cnt of None \<Rightarrow> skipped | Some n \<Rightarrow> take n skipped),
          st')"
      by (simp add: any Let_def slice_index_js_number take_min_length drop_min_length
          take_min_length_drop split: option.splits)
  qed
qed

lemmas example_defs = findMany_def list_keys_def two_users_def two_users_read_def alice_json_def bob_json_def
      getRecord_def download_def generateKey_def decode_def JSON_parse_def revive_date_def
      example_platform_def alice_record_def bob_record_def Let_def suffix_to_prefix
      slice_def to_integer_def js_number_def matches_def field_equals_def js_read_def
      object_prototype_names_def

lemma findMany_two_users:
  "findMany example_platform ''user'' None two_users =
     (Inr [VObj alice_record, VObj bob_record], two_users_read)"
  by (simp add: example_defs)

theorem findMany_options_witness:
  "findMany example_platform ''user'' None two_users =
     (Inr [VObj alice_record, VObj bob_record], two_users_read)
   \<and> opt_offset \<lparr>opt_where = Some [(''active'', VBool False)], opt_limit = Some (js_number 1),
                  opt_offset = Some (js_number 0)\<rparr> = map_option js_number (Some 0)
   \<and> opt_limit \<lparr>opt_where = Some [(''active'', VBool False)], opt_limit = Some (js_number 1),
                 opt_offset = Some (js_number 0)\<rparr> = map_option js_number (Some 1)
   \<and> findMany example_platform ''user''
        (Some \<lparr>opt_where = Some [(''active'', VBool False)], opt_limit = Some (js_number 1),
               opt_offset = Some (js_number 0)\<rparr>)
        two_users = (Inr [VObj bob_record], two_users_read)
   \<and> findMany example_platform ''user''
        (Some \<lparr>opt_where = None, opt_limit = Some (js_number 1), opt_offset = Some (js_number 1)\<rparr>)
        two_users = (Inr [VObj bob_record], two_users_read)
   \<and> findMany example_platform ''user''
        (Some \<lparr>opt_where = Some [(''name'', VStr ''C'')], opt_limit = None, opt_offset = None\<rparr>)
        two_users = (Inr [], two_users_read)
   \<and> findMany example_platform ''user''
        (Some \<lparr>opt_where = Some [(''constructor'', VUndefined)], opt_limit = None, opt_offset = None\<rparr>)
        two_users = (Inr [], two_users_read)"
  using findMany_options [OF findMany_two_users,
      of "\<lparr>opt_where = Some [(''active'', VBool False)], opt_limit = Some (js_number 1),
           opt_offset = Some (js_number 0)\<rparr>" "Some 0" "Some 1"]
    findMany_options [OF findMany_two_users,
      of "\<lparr>opt_where = None, opt_limit = Some (js_number 1), opt_offset = Some (js_number 1)\<rparr>"
         "Some 1" "Some 1"]
    findMany_options [OF findMany_two_users,
      of "\<lparr>opt_where = Some [(''name'', VStr ''C'')], opt_limit = None, opt_offset = None\<rparr>"
         None None]
    findMany_options [OF findMany_two_users,
      of "\<lparr>opt_where = Some [(''constructor'', VUndefined)], opt_limit = None, opt_offset = None\<rparr>"
         None None]
    findMany_two_users
  by (simp add: alice_record_def bob_record_def field_equals_def js_read_def
      object_prototype_names_def slice_index_js_number)

text \<open>
  Numbers that are not counts, as \<^verbatim>\<open>slice\<close> takes them: the limit \<open>-1\<close> leaves the
  last record out, the limit \<open>3/2\<close> is the limit 1, the offset \<open>-1\<close> starts at the last
  record, and the limit \<^verbatim>\<open>NaN\<close> is the limit 0.
\<close>

lemma findMany_other_numbers:
  "fst (findMany example_platform ''user''
          (Some \<lparr>opt_where = None, opt_limit = Some (Finite (- 1)), opt_offset = None\<rparr>) two_users)
     = Inr [VObj alice_record]"
  "fst (findMany example_platform ''user''
          (Some \<lparr>opt_where = None, opt_limit = Some (Finite (3 / 2)), opt_offset = None\<rparr>) two_users)
     = Inr [VObj alice_record]"
  "fst (findMany example_platform ''user''
          (Some \<lparr>opt_where = None, opt_limit = None, opt_offset = Some (Finite (- 1))\<rparr>) two_users)
     = Inr [VObj bob_record]"
  "fst (findMany example_platform ''user''
          (Some \<lparr>opt_where = None, opt_limit = Some NaN, opt_offset = None\<rparr>) two_users)
     = Inr []"
proof -
  have f: "\<lfloor>(3::rat) / 2\<rfloor> = 1"
    by code_simp
  have c: "\<lceil>- (1::rat)\<rceil> = - 1"
    by (simp add: ceiling_def)
  show "fst (findMany example_platform ''user''
          (Some \<lparr>opt_where = None, opt_limit = Some (Finite (- 1)), opt_offset = None\<rparr>) two_users)
     = Inr [VObj alice_record]"
    by (simp add: example_defs c)
  show "fst (findMany example_platform ''user''
          (Some \<lparr>opt_where = None, opt_limit = Some (Finite (3 / 2)), opt_offset = None\<rparr>) two_users)
     = Inr [VObj alice_record]"
    by (simp add: example_defs f)
  show "fst (findMany example_platform ''user''
          (Some \<lparr>opt_where = None, opt_limit = None, opt_offset = Some (Finite (- 1))\<rparr>) two_users)
     = Inr [VObj bob_record]"
    by (simp add: example_defs c)
  show "fst (findMany example_platform ''user''
          (Some \<lparr>opt_where = None, opt_limit = Some NaN, opt_offset = None\<rparr>) two_users)
     = Inr []"
    by (simp add: example_defs)
qed

section \<open>findMany: from the key back to the id\<close>

text \<open>
  \<^verbatim>\<open>findMany\<close> gets the id back from a key of \<^verbatim>\<open>generateKey\<close> when the id has
  no \<^verbatim>\<open>.json\<close> inside: then the first \<^verbatim>\<open>.json\<close> of the key is its suffix. For a
  bucket whose keys under the prefix of the model are the keys of such ids, it returns
  the records that \<^verbatim>\<open>getRecord\<close> reads for these ids, in the order of the listing,
  leaving out the ones that are not truthy (a key whose object is gone reads as
  \<^verbatim>\<open>null\<close>).
\<close>

lemma remove_first_prefix: "remove_first pat (pat @ s) = s"
proof (cases "pat @ s")
  case Nil
  then show ?thesis by simp
next
  case (Cons a list)
  have "prefix pat (a # list)"
    using Cons by (metis prefixI)
  moreover have "drop (length pat) (a # list) = s"
    using Cons by (metis append_eq_conv_conj)
  ultimately show ?thesis
    using Cons by simp
qed

lemma remove_first_suffix:
  "pat \<noteq> [] \<Longrightarrow> \<not> sublist pat (xs @ butlast pat) \<Longrightarrow> remove_first pat (xs @ pat) = xs"
proof (induction xs)
  case Nil
  then show ?case by (cases pat) auto
next
  case (Cons x xs)
  have no: "\<not> prefix pat (x # xs @ pat)"
  proof
    assume "prefix pat (x # xs @ pat)"
    then obtain w where w: "x # xs @ pat = pat @ w" by (auto simp: prefix_def)
    have "x # xs @ pat = ((x # xs) @ butlast pat) @ [last pat]"
      using Cons.prems(1) by simp
    with w have "pat @ w = ((x # xs) @ butlast pat) @ [last pat]" by simp
    moreover have "length pat \<le> length ((x # xs) @ butlast pat)"
      by simp
    ultimately have "prefix pat ((x # xs) @ butlast pat)"
      by (metis append_eq_append_conv_if prefix_def prefixI take_is_prefix prefix_order.order_trans)
    then have "sublist pat ((x # xs) @ butlast pat)"
      by (rule prefix_imp_sublist)
    with Cons.prems(2) show False by simp
  qed
  have "\<not> sublist pat (xs @ butlast pat)"
    using Cons.prems(2) by (auto simp: sublist_Cons_right)
  with Cons.IH Cons.prems(1) have "remove_first pat (xs @ pat) = xs" by simp
  with no show ?case by simp
qed

lemma json_border:
  assumes "sublist ''.json'' (s @ ''.jso'')"
  shows "sublist ''.json'' s"
proof -
  from assms obtain ps ss where e: "s @ ''.jso'' = ps @ ''.json'' @ ss"
    by (auto simp: sublist_def)
  have r: "''osj.'' @ rev s = rev ss @ ''nosj.'' @ rev ps"
    using arg_cong [OF e, of rev] by simp
  obtain a b c d t where t: "rev ss = a # b # c # d # t"
  proof (cases "rev ss")
    case Nil
    with r show ?thesis by simp
  next
    case A: (Cons a t1)
    show ?thesis
    proof (cases t1)
      case Nil
      with r A show ?thesis by simp
    next
      case B: (Cons b t2)
      show ?thesis
      proof (cases t2)
        case Nil
        with r A B show ?thesis by simp
      next
        case C: (Cons c t3)
        show ?thesis
        proof (cases t3)
          case Nil
          with r A B C show ?thesis by simp
        next
          case (Cons d t4)
          with A B C that show ?thesis by simp
        qed
      qed
    qed
  qed
  with r have "rev s = t @ ''nosj.'' @ rev ps" by simp
  then have "rev (rev s) = rev (t @ ''nosj.'' @ rev ps)" by (rule arg_cong)
  then have "s = ps @ ''.json'' @ rev t" by simp
  then show ?thesis
    by (auto simp: sublist_def)
qed

lemma id_of_generated_key:
  assumes "\<not> sublist ''.json'' ident"
  shows "remove_first ''.json'' (remove_first (m @ ''/'') (generateKey m ident)) = ident"
proof -
  have "remove_first (m @ ''/'') (generateKey m ident) = ident @ ''.json''"
    using remove_first_prefix [of "m @ ''/''" "ident @ ''.json''"] by (simp add: generateKey_def)
  moreover have "\<not> sublist ''.json'' (ident @ butlast ''.json'')"
    using assms json_border [of ident] by auto
  ultimately show ?thesis
    using remove_first_suffix [of "''.json''" ident] by simp
qed

lemma getRecord_reads_objects:
  "objects st' = objects st \<Longrightarrow> fst (getRecord P m ident st') = fst (getRecord P m ident st)"
  by (simp add: getRecord_def download_def Let_def split: option.splits sum.splits)

lemma load_records_generated_keys:
  assumes "\<forall>ident \<in> set ids. \<not> sublist ''.json'' ident"
    and "map (\<lambda>ident. fst (getRecord P m ident st)) ids = map Inr rs"
  shows "fst (load_records P m (map (generateKey m) ids) acc st) = Inr (acc @ filter truthy rs)"
  using assms
proof (induction ids arbitrary: acc st rs)
  case Nil
  then show ?case by simp
next
  case (Cons ident ids)
  from Cons.prems(2) obtain r rs' where rs: "rs = r # rs'"
    and r: "fst (getRecord P m ident st) = Inr r"
    and rest: "map (\<lambda>ident. fst (getRecord P m ident st)) ids = map Inr rs'"
    by (cases rs) auto
  obtain st1 where g: "getRecord P m ident st = (Inr r, st1)"
    using r by (cases "getRecord P m ident st") auto
  have same: "objects st1 = objects st"
    using g by (rule getRecord_objects)
  have "fst (getRecord P m i st1) = fst (getRecord P m i st)" for i
    using same by (rule getRecord_reads_objects)
  then have rest1: "map (\<lambda>ident. fst (getRecord P m ident st1)) ids = map Inr rs'"
    using rest by simp
  have cut: "remove_first ''.json'' (remove_first (m @ ''/'') (generateKey m ident)) = ident"
    using Cons.prems(1) by (simp add: id_of_generated_key)
  have "fst (load_records P m (map (generateKey m) ids)
               (if truthy r then acc @ [r] else acc) st1)
        = Inr ((if truthy r then acc @ [r] else acc) @ filter truthy rs')"
    using Cons.prems(1) rest1 by (intro Cons.IH) auto
  then show ?case
    by (simp add: cut g rs)
qed

lemma findMany_lists_generated_keys:
  assumes "filter (prefix (m @ ''/'')) (map fst (objects st)) = map (generateKey m) ids"
    and "\<forall>ident \<in> set ids. \<not> sublist ''.json'' ident"
    and "map (\<lambda>ident. fst (getRecord P m ident st)) ids = map Inr rs"
  shows "fst (findMany P m None st) = Inr (filter truthy rs)"
proof -
  let ?st1 = "st\<lparr>calls := calls st @ [List (m @ ''/'')]\<rparr>"
  have keys: "list_keys (m @ ''/'') st = (map (generateKey m) ids, ?st1)"
    using assms(1) by (simp add: list_keys_def)
  have "suffix ''.json'' (generateKey m ident)" for ident
    unfolding generateKey_def by (rule suffixI [of _ "m @ ''/'' @ ident"]) simp
  then have all_json: "filter (suffix ''.json'') (map (generateKey m) ids) = map (generateKey m) ids"
    by (intro filter_True) auto
  have "fst (getRecord P m ident ?st1) = fst (getRecord P m ident st)" for ident
    by (rule getRecord_reads_objects) simp
  then have "map (\<lambda>ident. fst (getRecord P m ident ?st1)) ids = map Inr rs"
    using assms(3) by simp
  with assms(2) have "fst (load_records P m (map (generateKey m) ids) [] ?st1) = Inr (filter truthy rs)"
    using load_records_generated_keys [of ids P m ?st1 rs "[]"] by simp
  then obtain st2 where
    "load_records P m (map (generateKey m) ids) [] ?st1 = (Inr (filter truthy rs), st2)"
    by (cases "load_records P m (map (generateKey m) ids) [] ?st1") auto
  then show ?thesis
    by (simp add: findMany_def keys all_json)
qed

text \<open>
  Claim C6 does not hold of the code. \<^verbatim>\<open>findMany\<close> cuts the id out of a listed key
  with \<^verbatim>\<open>key.replace(prefix, '').replace('.json', '')\<close>, which removes the first
  \<^verbatim>\<open>.json\<close> of the key and not the suffix. The record with the id \<^verbatim>\<open>a.json.b\<close>
  is created under the key \<^verbatim>\<open>user/a.json.b.json\<close> and \<^verbatim>\<open>findOne\<close> finds it;
  \<^verbatim>\<open>findMany\<close> lists the key, makes the id \<^verbatim>\<open>a.b.json\<close> of it, downloads
  \<^verbatim>\<open>user/a.b.json.json\<close>, finds nothing and returns no record.
\<close>

theorem findMany_loses_id_with_json_inside:
  "fst (create example_platform ''user'' 0 dotted empty_bucket) = Inr (VObj dotted_record)
   \<and> map fst (objects dotted_bucket) = [''user/a.json.b.json'']
   \<and> fst (findOne example_platform ''user'' ''a.json.b'' dotted_bucket) = Inr (VObj dotted_record)
   \<and> findMany example_platform ''user'' None dotted_bucket =
        (Inr [], dotted_bucket\<lparr>calls := calls dotted_bucket @
                                   [List ''user/'', Download ''user/a.b.json.json'']\<rparr>)"
  by (simp add: example_defs dotted_bucket_def create_def dotted_def empty_bucket_def upload_def
      JSON_stringify_def findOne_def dotted_record_def)

section \<open>The schema gate\<close>

lemma create_adult:
  "fst (create example_platform ''user'' 1000 adult empty_bucket) = Inr (VObj adult_record)"
  by (simp add: create_def adult_def getRecord_def download_def empty_bucket_def generateKey_def
      adult_record_def Let_def)

text \<open>
  Claim C7. When the schema rejects the payload, \<^verbatim>\<open>createWithValidation\<close> throws
  \<^verbatim>\<open>INVALID_DATA\<close>, and the details of the exception are the whole list of issues of
  the \<^verbatim>\<open>ZodError\<close>, one pair of field path and message for every violation the
  validator reports. It returns the storage as it found it, without a call to it: nothing
  is written. So an id under which nothing was stored (the id of a payload that was to be
  created, for one) is still absent for \<^verbatim>\<open>findOne\<close> afterwards. When the schema
  accepts the payload, the result is that of \<^verbatim>\<open>create\<close> on the validated data.
\<close>

theorem createWithValidation_gate:
  "(sch data = ZodError errors \<longrightarrow>
      createWithValidation P m sch now data st =
        (Inl (BucketORMException INVALID_DATA (Issues errors)), st)
      \<and> (ident \<noteq> [] \<and> map_of (objects st) (generateKey m ident) = None \<longrightarrow>
           fst (findOne P m ident (snd (createWithValidation P m sch now data st))) = Inr VNull))
   \<and> (sch data = Parsed validatedData \<longrightarrow>
      createWithValidation P m sch now data st = create P m now validatedData st)"
  by (simp add: createWithValidation_def findOne_def getRecord_absent)

theorem createWithValidation_gate_witness:
  "adult_schema minor =
      ZodError [\<lparr>path = [Key ''age''], message = ''Number must be greater than or equal to 18''\<rparr>,
                \<lparr>path = [Key ''name''], message = ''Required''\<rparr>]
   \<and> js_get minor ''id'' = VStr ''u1''
   \<and> ''u1'' \<noteq> [] \<and> map_of (objects empty_bucket) (generateKey ''user'' ''u1'') = None
   \<and> createWithValidation example_platform ''user'' adult_schema 1000 minor empty_bucket =
        (Inl (BucketORMException INVALID_DATA
           (Issues [\<lparr>path = [Key ''age''], message = ''Number must be greater than or equal to 18''\<rparr>,
                    \<lparr>path = [Key ''name''], message = ''Required''\<rparr>])),
         empty_bucket)
   \<and> fst (findOne example_platform ''user'' ''u1''
        (snd (createWithValidation example_platform ''user'' adult_schema 1000 minor empty_bucket)))
       = Inr VNull
   \<and> adult_schema adult = Parsed adult
   \<and> fst (createWithValidation example_platform ''user'' adult_schema 1000 adult empty_bucket) =
        Inr (VObj adult_record)"
proof -
  have a: "adult_schema minor =
      ZodError [\<lparr>path = [Key ''age''], message = ''Number must be greater than or equal to 18''\<rparr>,
                \<lparr>path = [Key ''name''], message = ''Required''\<rparr>]"
    by (simp add: adult_schema_def minor_def)
  have b: "adult_schema adult = Parsed adult"
    by (simp add: adult_schema_def adult_def)
  have c: "''u1'' \<noteq> [] \<and> map_of (objects empty_bucket) (generateKey ''user'' ''u1'') = None"
    by (simp add: empty_bucket_def)
  have d: "js_get minor ''id'' = VStr ''u1''"
    by (simp add: minor_def)
  show ?thesis
    using createWithValidation_gate [of adult_schema minor
        "[\<lparr>path = [Key ''age''], message = ''Number must be greater than or equal to 18''\<rparr>,
          \<lparr>path = [Key ''name''], message = ''Required''\<rparr>]"
        example_platform "''user''" 1000 empty_bucket "''u1''" minor]
      createWithValidation_gate [of adult_schema adult "[]" example_platform "''user''" 1000
        empty_bucket "''u1''" adult]
      a b c d create_adult
    by (simp add: findOne_def getRecord_absent)
qed

section \<open>A stored object that is not JSON\<close>

lemma getRecord_empty_text:
  "map_of (objects st) (generateKey m ident) = Some (NotJson []) \<Longrightarrow>
   getRecord P m ident st = (Inr VNull, st\<lparr>calls := calls st @ [Download (generateKey m ident)]\<rparr>)"
  by (simp add: getRecord_def download_def)

lemma getRecord_not_json:
  "map_of (objects st) (generateKey m ident) = Some (NotJson s) \<Longrightarrow> s \<noteq> [] \<Longrightarrow>
   getRecord P m ident st =
     (Inl (BucketORMException STORAGE_ERROR (Cause SyntaxError)),
      st\<lparr>calls := calls st @ [Download (generateKey m ident)]\<rparr>)"
  by (simp add: getRecord_stored decode_def JSON_parse_def)

text \<open>
  Claim C8, as amended. \<^verbatim>\<open>BucketORMError\<close> has no code for corrupt data. When the
  object stored for an id is a text that is not JSON and not empty, \<^verbatim>\<open>findOne\<close>,
  \<^verbatim>\<open>create\<close> (for a payload with that id), \<^verbatim>\<open>update\<close> and \<^verbatim>\<open>delete\<close> all
  throw a \<^verbatim>\<open>BucketORMException\<close> with the code \<^verbatim>\<open>STORAGE_ERROR\<close>, whose details
  hold the \<^verbatim>\<open>SyntaxError\<close> of \<^verbatim>\<open>JSON.parse\<close>; the download is their only call to the
  storage. (An empty text is read as no record at all.)
\<close>

theorem not_json_is_storage_error:
  assumes "map_of (objects st) (generateKey m ident) = Some (NotJson s)" and "s \<noteq> []"
    and "ident \<noteq> []" and "js_get data ''id'' = VStr ident"
  shows "findOne P m ident st =
           (Inl (BucketORMException STORAGE_ERROR (Cause SyntaxError)),
            st\<lparr>calls := calls st @ [Download (generateKey m ident)]\<rparr>)
       \<and> create P m now data st =
           (Inl (BucketORMException STORAGE_ERROR (Cause SyntaxError)),
            st\<lparr>calls := calls st @ [Download (generateKey m ident)]\<rparr>)
       \<and> update P m now ident d st =
           (Inl (BucketORMException STORAGE_ERROR (Cause SyntaxError)),
            st\<lparr>calls := calls st @ [Download (generateKey m ident)]\<rparr>)
       \<and> delete P m ident st =
           (Inl (BucketORMException STORAGE_ERROR (Cause SyntaxError)),
            st\<lparr>calls := calls st @ [Download (generateKey m ident)]\<rparr>)"
proof -
  have nn: "data \<noteq> VNull" "data \<noteq> VUndefined"
    using assms(4) by auto
  show ?thesis
    using assms nn
    by (simp add: findOne_def create_def update_def delete_def getRecord_not_json)
qed

theorem not_json_is_storage_error_witness:
  "map_of (objects corrupt_bucket) (generateKey ''user'' ''u1'') = Some (NotJson ''{oops'')
   \<and> ''{oops'' \<noteq> [] \<and> ''u1'' \<noteq> [] \<and> js_get alice ''id'' = VStr ''u1''
   \<and> fst (findOne example_platform ''user'' ''u1'' corrupt_bucket) =
        Inl (BucketORMException STORAGE_ERROR (Cause SyntaxError))
   \<and> fst (create example_platform ''user'' 0 alice corrupt_bucket) =
        Inl (BucketORMException STORAGE_ERROR (Cause SyntaxError))
   \<and> fst (update example_platform ''user'' 0 ''u1'' (VObj []) corrupt_bucket) =
        Inl (BucketORMException STORAGE_ERROR (Cause SyntaxError))
   \<and> fst (delete example_platform ''user'' ''u1'' corrupt_bucket) =
        Inl (BucketORMException STORAGE_ERROR (Cause SyntaxError))"
proof -
  have a: "map_of (objects corrupt_bucket) (generateKey ''user'' ''u1'') = Some (NotJson ''{oops'')"
    by (simp add: corrupt_bucket_def generateKey_def)
  have b: "''{oops'' \<noteq> []" and c: "''u1'' \<noteq> []" by simp_all
  have d: "js_get alice ''id'' = VStr ''u1''" by (simp add: alice_def)
  show ?thesis
    using not_json_is_storage_error [OF a b c d, of example_platform 0 "VObj []"] a d by simp
qed

text \<open>
  The counterexample to C8 as it is written: the error that \<^verbatim>\<open>findOne\<close> throws for a
  stored text that is not JSON has the code \<^verbatim>\<open>STORAGE_ERROR\<close>, so it is not of a kind
  distinct from the storage error.
\<close>

theorem corrupt_data_counterexample:
  "map_of (objects corrupt_bucket) (generateKey ''user'' ''u1'') = Some (NotJson ''{oops'')
   \<and> findOne example_platform ''user'' ''u1'' corrupt_bucket =
       (Inl (BucketORMException STORAGE_ERROR (Cause SyntaxError)),
        corrupt_bucket\<lparr>calls := [Download ''user/u1.json'']\<rparr>)"
  by (simp add: findOne_def getRecord_def download_def generateKey_def corrupt_bucket_def
      decode_def JSON_parse_def Let_def)

section \<open>The registry\<close>

lemma model_is_cached:
  "model n (snd (model n orm)) = (fst (model n orm), snd (model n orm))"
  by (simp add: model_def Let_def split: option.splits)

lemma schemaModel_is_cached:
  "schemaModel n s' (snd (schemaModel n s orm)) =
     (fst (schemaModel n s orm), snd (schemaModel n s orm))"
  by (simp add: schemaModel_def Let_def split: option.splits)

lemma schema_key_collision:
  "fst (model (n @ ''_schema'') (snd (schemaModel n s orm))) = fst (schemaModel n s orm)"
  by (simp add: model_def schemaModel_def Let_def split: option.splits)

text \<open>
  Claim C9 does not hold of the code. Repeated calls with the same name do return the
  cached object (the two lemmas above), but there is one \<^verbatim>\<open>Map\<close> for both kinds of
  model, and \<^verbatim>\<open>schemaModel\<close> files its object under the name followed by
  \<^verbatim>\<open>_schema\<close>. So after \<^verbatim>\<open>schemaModel('user', s)\<close>, the call
  \<^verbatim>\<open>model('user_schema')\<close> returns the schema model of \<^verbatim>\<open>user\<close>; and after
  \<^verbatim>\<open>model('user_schema')\<close>, the call \<^verbatim>\<open>schemaModel('user', s)\<close> returns the plain
  model of \<^verbatim>\<open>user_schema\<close>, which has no schema.
\<close>

theorem schema_key_collision_example:
  "fst (schemaModel ''user'' ''userSchema'' empty_orm) =
      \<lparr>ref = 0, modelName = ''user'', schema = Some ''userSchema''\<rparr>
   \<and> fst (model ''user_schema'' (snd (schemaModel ''user'' ''userSchema'' empty_orm))) =
      \<lparr>ref = 0, modelName = ''user'', schema = Some ''userSchema''\<rparr>
   \<and> fst (model ''user_schema'' empty_orm) =
      \<lparr>ref = 0, modelName = ''user_schema'', schema = None\<rparr>
   \<and> fst (schemaModel ''user'' ''userSchema'' (snd (model ''user_schema'' empty_orm))) =
      \<lparr>ref = 0, modelName = ''user_schema'', schema = None\<rparr>
   \<and> getSchema (fst (schemaModel ''user'' ''userSchema'' (snd (model ''user_schema'' empty_orm)))) =
      Inl TypeError"
  by (simp add: model_def schemaModel_def empty_orm_def getSchema_def Let_def)

lemma schemaModel_keeps_first_schema:
  "models orm (n @ ''_schema'') = None \<Longrightarrow>
   fst (schemaModel n s1 orm) = \<lparr>ref = constructed orm, modelName = n, schema = Some s1\<rparr>
   \<and> schemaModel n s2 (snd (schemaModel n s1 orm)) =
       (fst (schemaModel n s1 orm), snd (schemaModel n s1 orm))
   \<and> getSchema (fst (schemaModel n s2 (snd (schemaModel n s1 orm)))) = Inr s1"
  by (simp add: schemaModel_def getSchema_def Let_def)

lemma schemaModel_first_then_second:
  "fst (schemaModel ''user'' ''second'' (snd (schemaModel ''user'' ''first'' empty_orm))) =
     \<lparr>ref = 0, modelName = ''user'', schema = Some ''first''\<rparr>
   \<and> getSchema (fst (schemaModel ''user'' ''second'' (snd (schemaModel ''user'' ''first'' empty_orm))))
       = Inr ''first''"
  by (simp add: schemaModel_def getSchema_def empty_orm_def Let_def)

text \<open>
  Claim C10 does not hold of the code. As long as nothing is filed under the name
  followed by \<^verbatim>\<open>_schema\<close>, the first \<^verbatim>\<open>schemaModel(n, s1)\<close> constructs the object
  with \<open>s1\<close>, and \<^verbatim>\<open>schemaModel(n, s2)\<close> returns that object with the registry as it
  is (the two lemmas above). But the one \<^verbatim>\<open>Map\<close> holds plain models too: after
  \<^verbatim>\<open>model('user_schema')\<close>, the first \<^verbatim>\<open>schemaModel('user', first)\<close> finds the plain
  model of \<^verbatim>\<open>user_schema\<close> under its key and constructs nothing, and
  \<^verbatim>\<open>schemaModel('user', second)\<close> returns that plain model again: no object
  constructed with \<^verbatim>\<open>first\<close> exists (one object has been constructed in all, the
  plain model), and \<^verbatim>\<open>getSchema()\<close> on the object returned throws a \<^verbatim>\<open>TypeError\<close>
  instead of returning \<^verbatim>\<open>first\<close>.
\<close>

theorem first_schema_lost_example:
  "fst (schemaModel ''user'' ''first'' (snd (model ''user_schema'' empty_orm))) =
     \<lparr>ref = 0, modelName = ''user_schema'', schema = None\<rparr>
   \<and> fst (schemaModel ''user'' ''second''
            (snd (schemaModel ''user'' ''first'' (snd (model ''user_schema'' empty_orm))))) =
     \<lparr>ref = 0, modelName = ''user_schema'', schema = None\<rparr>
   \<and> getSchema (fst (schemaModel ''user'' ''second''
            (snd (schemaModel ''user'' ''first'' (snd (model ''user_schema'' empty_orm))))))
       = Inl TypeError
   \<and> constructed (snd (schemaModel ''user'' ''second''
            (snd (schemaModel ''user'' ''first'' (snd (model ''user_schema'' empty_orm))))))
       = 1"
  by (simp add: model_def schemaModel_def empty_orm_def getSchema_def Let_def)

end
